theory Spec2Isabelle
  imports Complex_Main "HOL-Library.Sublist" "HOL-Library.Log_Nat"
begin

section \<open>Python values used by the services\<close>

text \<open>
  The services of \<^verbatim>\<open>backend/app/services\<close> work on Python strings, lists and dicts.
  A string is a \<^typ>\<open>string\<close>; the case mappings, the whitespace class and the
  alphabetic class are those of Python on ASCII text (a character outside ASCII is left
  alone by the case mappings and belongs to neither class). An exception is a value of
  \<open>error\<close>, and a function that can raise returns \<open>error + 'a\<close>.
\<close>

datatype error = TypeError | IndexError | ValueError | KeyError | OtherException

definition ord :: "char \<Rightarrow> int" where
  "ord c = of_char c"

definition chr :: "int \<Rightarrow> char" where
  "chr n = char_of n"

definition lower_char :: "char \<Rightarrow> char" where
  "lower_char c =
     (if ord CHR ''A'' \<le> ord c \<and> ord c \<le> ord CHR ''Z'' then chr (ord c + 32) else c)"

definition upper_char :: "char \<Rightarrow> char" where
  "upper_char c =
     (if ord CHR ''a'' \<le> ord c \<and> ord c \<le> ord CHR ''z'' then chr (ord c - 32) else c)"

definition lower :: "string \<Rightarrow> string" where
  "lower s = map lower_char s"

definition upper :: "string \<Rightarrow> string" where
  "upper s = map upper_char s"

definition isalpha_char :: "char \<Rightarrow> bool" where
  "isalpha_char c =
     ((ord CHR ''A'' \<le> ord c \<and> ord c \<le> ord CHR ''Z'') \<or>
      (ord CHR ''a'' \<le> ord c \<and> ord c \<le> ord CHR ''z''))"

definition isalpha :: "string \<Rightarrow> bool" where
  "isalpha s = (s \<noteq> [] \<and> list_all isalpha_char s)"

text \<open>Whitespace of \<^verbatim>\<open>str.strip()\<close> and \<^verbatim>\<open>str.split()\<close>: space, tab, line feed,
  vertical tab, form feed, carriage return and the four separators 0x1C to 0x1F.\<close>

definition isspace_char :: "char \<Rightarrow> bool" where
  "isspace_char c = (ord c = 32 \<or> (9 \<le> ord c \<and> ord c \<le> 13) \<or> (28 \<le> ord c \<and> ord c \<le> 31))"

definition capitalize :: "string \<Rightarrow> string" where
  "capitalize s = (case s of [] \<Rightarrow> [] | c # cs \<Rightarrow> upper_char c # lower cs)"

text \<open>\<^verbatim>\<open>sub in s\<close>: \<open>sub\<close> occurs in \<open>s\<close> as a contiguous substring.\<close>

fun str_in :: "string \<Rightarrow> string \<Rightarrow> bool" where
  "str_in sub [] = (sub = [])"
| "str_in sub (c # cs) = (prefix sub (c # cs) \<or> str_in sub cs)"

text \<open>\<^verbatim>\<open>any(w in s for w in ws)\<close>.\<close>

definition any_in :: "string list \<Rightarrow> string \<Rightarrow> bool" where
  "any_in ws s = list_ex (\<lambda>w. str_in w s) ws"

text \<open>\<^verbatim>\<open>s.strip()\<close>.\<close>

definition strip :: "string \<Rightarrow> string" where
  "strip s = rev (dropWhile isspace_char (rev (dropWhile isspace_char s)))"

text \<open>\<^verbatim>\<open>s.split()\<close>: the maximal runs of non-whitespace characters, in order. The first
  argument is the token being read, reversed.\<close>

fun split_ws_aux :: "string \<Rightarrow> string \<Rightarrow> string list" where
  "split_ws_aux acc [] = (if acc = [] then [] else [rev acc])"
| "split_ws_aux acc (c # cs) =
     (if isspace_char c
      then (if acc = [] then split_ws_aux [] cs else rev acc # split_ws_aux [] cs)
      else split_ws_aux (c # acc) cs)"

definition split_ws :: "string \<Rightarrow> string list" where
  "split_ws s = split_ws_aux [] s"

text \<open>\<^verbatim>\<open>s.split(sep)\<close> for a non-empty \<open>sep\<close>: the pieces between the occurrences of
  \<open>sep\<close>, found from left to right without overlap. Python raises ValueError for an empty
  separator.\<close>

function split_sep_aux :: "string \<Rightarrow> string \<Rightarrow> string \<Rightarrow> string list" where
  "split_sep_aux sep acc [] = [rev acc]"
| "split_sep_aux sep acc (c # cs) =
     (if sep \<noteq> [] \<and> prefix sep (c # cs)
      then rev acc # split_sep_aux sep [] (drop (length sep) (c # cs))
      else split_sep_aux sep (c # acc) cs)"
  by pat_completeness auto
termination
  by (relation "measure (\<lambda>(sep, acc, s). length s)") auto

definition split_sep :: "string \<Rightarrow> string \<Rightarrow> error + string list" where
  "split_sep sep s = (if sep = [] then Inl ValueError else Inr (split_sep_aux sep [] s))"

text \<open>\<^verbatim>\<open>xs[-n:]\<close> for an integer \<open>n\<close>: the last \<open>n\<close> elements when \<open>n > 0\<close> (all of
  them when the list is shorter); \<^verbatim>\<open>xs[-0:]\<close> is \<^verbatim>\<open>xs[0:]\<close>, the whole list; for
  \<open>n < 0\<close> it is \<^verbatim>\<open>xs[k:]\<close> with \<open>k = -n\<close>, the list without its first \<open>k\<close> elements.\<close>

definition slice_last :: "int \<Rightarrow> 'a list \<Rightarrow> 'a list" where
  "slice_last n xs =
     (if n > 0 then drop (length xs - nat n) xs
      else if n = 0 then xs
      else drop (nat (- n)) xs)"

section \<open>Curriculum service\<close>

text \<open>
  \<^verbatim>\<open>curriculum_service.py\<close>. The lesson table is the JSON object of the lessons file: a
  dict from letter to lesson, a lesson being a dict whose keys (each optional, read with
  \<^verbatim>\<open>.get\<close>) are \<^verbatim>\<open>phoneme\<close>, \<^verbatim>\<open>phoneme_clue\<close>, \<^verbatim>\<open>examples\<close>,
  \<^verbatim>\<open>activity\<close> and \<^verbatim>\<open>prompt\<close>. The lessons file is not part of the sources, so
  the table is a parameter of the model.
\<close>

record lesson =
  phoneme :: "string option"
  phoneme_clue :: "string option"
  examples :: "string list option"
  activity :: "string option"
  prompt :: "string option"

type_synonym lessons_table = "string \<rightharpoonup> lesson"

record curriculum_service =
  lessons_file :: string
  lessons :: lessons_table
  phoneme_map :: "string \<rightharpoonup> string list"

text \<open>The constructor sets \<open>lessons\<close> from the loader and \<open>phoneme_map\<close> from the
  table; its last line calls a method, \<^verbatim>\<open>_load_curriculum_data\<close>, that the class does
  not define, so the model starts from a service record and not from the constructor.\<close>

text \<open>What \<^verbatim>\<open>open(self.lessons_file)\<close> followed by \<^verbatim>\<open>json.load\<close> does: it raises
  FileNotFoundError, raises JSONDecodeError (the text is not JSON), raises something else (a
  permission error, or a file that fails to parse with UnicodeDecodeError or RecursionError),
  returns a table of lessons, or returns a value on which \<^verbatim>\<open>_build_phoneme_map\<close>
  raises (a list, say, or a lesson whose clue is a number). A parsed value that is neither
  a table of lessons nor makes the build raise is outside the model.\<close>

datatype file_outcome =
  FileNotFoundError
  | JSONDecodeError
  | OtherError
  | Parsed lessons_table
  | ParsedUnbuildable

text \<open>The phoneme of the built-in lesson is the string \<^verbatim>\<open>/ae/\<close> written with the
  ligature U+00E6, here as its UTF-8 bytes.\<close>

definition get_default_lessons :: lessons_table where
  "get_default_lessons =
     [''A'' \<mapsto> \<lparr>
        phoneme = Some ([CHR ''/'', CHR 0xC3, CHR 0xA6, CHR ''/'']),
        phoneme_clue = Some ''ah'',
        examples = Some [''Apple'', ''Ant'', ''Alligator''],
        activity = Some ''Can you find something in the room that starts with the letter A?'',
        prompt = Some (''This is the letter A. It makes the '' @ [CHR 0x27] @ ''ah'' @ [CHR 0x27]
                       @ '' sound, like in apple. Can you say '' @ [CHR 0x27] @ ''ah''
                       @ [CHR 0x27] @ ''?'') \<rparr>]"

text \<open>\<^verbatim>\<open>_load_lessons\<close> catches FileNotFoundError and JSONDecodeError only. What it
  returns is a table of lessons, or (\<open>None\<close>) the value on which the build raises.\<close>

definition load_lessons :: "file_outcome \<Rightarrow> error + lessons_table option" where
  "load_lessons fo =
     (case fo of
        Parsed t \<Rightarrow> Inr (Some t)
      | ParsedUnbuildable \<Rightarrow> Inr None
      | FileNotFoundError \<Rightarrow> Inr (Some get_default_lessons)
      | JSONDecodeError \<Rightarrow> Inr (Some get_default_lessons)
      | OtherError \<Rightarrow> Inl OtherException)"

definition get_or :: "'a option \<Rightarrow> 'a \<Rightarrow> 'a" where
  "get_or v d = (case v of None \<Rightarrow> d | Some x \<Rightarrow> x)"

definition build_phoneme_map :: "lessons_table \<Rightarrow> (string \<rightharpoonup> string list)" where
  "build_phoneme_map ls =
     (\<lambda>letter. case ls letter of
        None \<Rightarrow> None
      | Some data \<Rightarrow>
          Some (lower (get_or (phoneme_clue data) '''') # lower letter
                # map lower (get_or (examples data) [])))"

definition get_lesson :: "curriculum_service \<Rightarrow> string \<Rightarrow> lesson option" where
  "get_lesson cs letter = lessons cs (upper letter)"

text \<open>\<^verbatim>\<open>if lesson:\<close> holds for a dict with at least one key.\<close>

definition empty_lesson :: lesson where
  "empty_lesson =
     \<lparr> phoneme = None, phoneme_clue = None, examples = None, activity = None, prompt = None \<rparr>"

definition truthy_lesson :: "lesson option \<Rightarrow> bool" where
  "truthy_lesson l = (case l of None \<Rightarrow> False | Some d \<Rightarrow> d \<noteq> empty_lesson)"

fun first_sound_in :: "string list \<Rightarrow> string \<Rightarrow> bool" where
  "first_sound_in [] user_lower = False"
| "first_sound_in (sound # sounds) user_lower =
     (if str_in sound user_lower then True else first_sound_in sounds user_lower)"

definition check_pronunciation :: "curriculum_service \<Rightarrow> string \<Rightarrow> string \<Rightarrow> bool \<times> string" where
  "check_pronunciation cs user_input target_letter =
     (let user_lower = lower user_input;
          target_sounds = get_or (phoneme_map cs (upper target_letter)) []
      in if first_sound_in target_sounds user_lower
         then (True, ''Great job! You said the '' @ target_letter @ '' sound correctly!'')
         else
           (let clue = (case get_lesson cs target_letter of
                          None \<Rightarrow> lower target_letter
                        | Some d \<Rightarrow>
                            if d \<noteq> empty_lesson
                            then get_or (phoneme_clue d) (lower target_letter)
                            else lower target_letter)
            in (False, ''Close! Try the '' @ [CHR 0x27] @ clue @ [CHR 0x27] @ '' sound for ''
                       @ target_letter @ ''. You can do it!'')))"

text \<open>\<^verbatim>\<open>ord\<close> of a string that is not one character long raises TypeError.\<close>

definition get_next_letter :: "string \<Rightarrow> error + string option" where
  "get_next_letter current_letter =
     (if current_letter = [] then Inr (Some ''A'')
      else case upper current_letter of
             [c] \<Rightarrow>
               (let next_ord = ord c + 1
                in if next_ord \<le> ord CHR ''Z'' then Inr (Some [chr next_ord]) else Inr None)
           | _ \<Rightarrow> Inl TypeError)"

text \<open>\<^verbatim>\<open>reload_lessons\<close>: the loaded value is assigned to \<^verbatim>\<open>self.lessons\<close> first
  and the phoneme map then built from it, all inside \<^verbatim>\<open>try\<close>. An exception of the
  loader leaves both fields as they were and gives False. An exception of the build gives
  False after the assignment: the object then holds lessons that are not a table of lessons,
  with the phoneme map of before; no record of the model describes it, and the state
  returned is \<open>None\<close>.\<close>

definition reload_lessons ::
  "curriculum_service \<Rightarrow> file_outcome \<Rightarrow> bool \<times> curriculum_service option" where
  "reload_lessons cs fo =
     (case load_lessons fo of
        Inl e \<Rightarrow> (False, Some cs)
      | Inr None \<Rightarrow> (False, None)
      | Inr (Some t) \<Rightarrow>
          (True, Some (cs\<lparr> lessons := t, phoneme_map := build_phoneme_map t \<rparr>)))"

section \<open>Memory service\<close>

text \<open>
  \<^verbatim>\<open>memory_service.py\<close>. A session is the dict with the keys \<^verbatim>\<open>history\<close> and
  \<^verbatim>\<open>derived_state\<close>; a history entry is the dict with the keys \<^verbatim>\<open>type\<close>,
  \<^verbatim>\<open>text\<close> and \<^verbatim>\<open>timestamp\<close>. The service mutates the session in place; the
  model returns the updated service. Each reading of \<^verbatim>\<open>datetime.now().isoformat()\<close>
  is an argument of the model.
\<close>

record turn =
  turn_type :: string
  turn_text :: string
  timestamp :: string

record derived =
  current_letter :: string
  child_name :: "string option"
  difficulty :: string
  last_mistake :: "string option"
  session_start :: string
  total_interactions :: int

record session =
  history :: "turn list"
  derived_state :: derived

record memory_service =
  max_turns :: int
  sessions :: "string \<rightharpoonup> session"

text \<open>\<^verbatim>\<open>MemoryService(max_turns)\<close>; the default of the constructor is 3.\<close>

definition MemoryService :: "int \<Rightarrow> memory_service" where
  "MemoryService n = \<lparr> max_turns = n, sessions = Map.empty \<rparr>"

definition new_session :: "string \<Rightarrow> session" where
  "new_session now =
     \<lparr> history = [],
       derived_state = \<lparr> current_letter = ''A'', child_name = None, difficulty = ''easy'',
                         last_mistake = None, session_start = now, total_interactions = 0 \<rparr> \<rparr>"

definition get_session :: "memory_service \<Rightarrow> string \<Rightarrow> string \<Rightarrow> session \<times> memory_service" where
  "get_session ms session_id now =
     (case sessions ms session_id of
        Some s \<Rightarrow> (s, ms)
      | None \<Rightarrow> (new_session now, ms\<lparr> sessions := (sessions ms)(session_id \<mapsto> new_session now) \<rparr>))"

definition put_session :: "memory_service \<Rightarrow> string \<Rightarrow> session \<Rightarrow> memory_service" where
  "put_session ms session_id s = ms\<lparr> sessions := (sessions ms)(session_id \<mapsto> s) \<rparr>"

text \<open>\<^verbatim>\<open>xs[-1]\<close> and \<^verbatim>\<open>xs[0]\<close> raise IndexError on an empty list.\<close>

definition last_item :: "'a list \<Rightarrow> error + 'a" where
  "last_item xs = (if xs = [] then Inl IndexError else Inr (last xs))"

definition first_item :: "'a list \<Rightarrow> error + 'a" where
  "first_item xs = (case xs of [] \<Rightarrow> Inl IndexError | x # _ \<Rightarrow> Inr x)"

text \<open>One of the three blocks of the name extraction: when the phrase occurs, the text
  after its last occurrence is stripped and, unless empty, its first token is a candidate.\<close>

definition candidate_after :: "string \<Rightarrow> string \<Rightarrow> error + string list" where
  "candidate_after phrase user_lower =
     (if str_in phrase user_lower
      then (case split_sep phrase user_lower of
              Inl e \<Rightarrow> Inl e
            | Inr pieces \<Rightarrow>
                (case last_item pieces of
                   Inl e \<Rightarrow> Inl e
                 | Inr piece \<Rightarrow>
                     (let name_part = strip piece
                      in if name_part \<noteq> []
                         then (case first_item (split_ws name_part) of
                                 Inl e \<Rightarrow> Inl e
                               | Inr tok \<Rightarrow> Inr [tok])
                         else Inr [])))
      else Inr [])"

definition phrase_my_name_is :: string where
  "phrase_my_name_is = ''my name is''"

definition phrase_im :: string where
  "phrase_im = ''i'' @ [CHR 0x27] @ ''m''"

definition phrase_i_am :: string where
  "phrase_i_am = ''i am''"

definition name_candidates :: "string \<Rightarrow> error + string list" where
  "name_candidates user_lower =
     (case candidate_after phrase_my_name_is user_lower of
        Inl e \<Rightarrow> Inl e
      | Inr c1 \<Rightarrow>
          (case candidate_after phrase_im user_lower of
             Inl e \<Rightarrow> Inl e
           | Inr c2 \<Rightarrow>
               (case candidate_after phrase_i_am user_lower of
                  Inl e \<Rightarrow> Inl e
                | Inr c3 \<Rightarrow> Inr (c1 @ c2 @ c3))))"

text \<open>The loop over the candidates, with its \<^verbatim>\<open>break\<close>: the first candidate that is
  alphabetic and longer than one character, capitalized.\<close>

fun first_name :: "string list \<Rightarrow> string option" where
  "first_name [] = None"
| "first_name (candidate # rest) =
     (if candidate \<noteq> [] \<and> isalpha candidate \<and> length candidate > 1
      then Some (capitalize candidate)
      else first_name rest)"

definition update_derived_state :: "session \<Rightarrow> string \<Rightarrow> string \<Rightarrow> error + session" where
  "update_derived_state s user_input assistant_response =
     (let state = derived_state s;
          user_lower = lower user_input;
          named =
            (if str_in phrase_my_name_is user_lower \<or> str_in phrase_im user_lower
                \<or> str_in phrase_i_am user_lower
             then (case name_candidates user_lower of
                     Inl e \<Rightarrow> Inl e
                   | Inr cands \<Rightarrow>
                       (case first_name cands of
                          None \<Rightarrow> Inr state
                        | Some n \<Rightarrow> Inr (state\<lparr> child_name := Some n \<rparr>)))
             else Inr state)
      in case named of
           Inl e \<Rightarrow> Inl e
         | Inr state1 \<Rightarrow>
             Inr (s\<lparr> derived_state :=
                    (if any_in [''try again'', ''not quite'', ''almost''] (lower assistant_response)
                     then state1\<lparr> last_mistake := Some user_input \<rparr>
                     else if any_in [''great'', ''excellent'', ''perfect''] (lower assistant_response)
                     then state1\<lparr> last_mistake := None \<rparr>
                     else state1) \<rparr>))"

text \<open>\<^verbatim>\<open>add_turn\<close>. The three clock readings are those of the lazy creation of the
  session, of the user entry and of the assistant entry.\<close>

definition add_turn ::
  "memory_service \<Rightarrow> string \<Rightarrow> string \<Rightarrow> string \<Rightarrow> string \<times> string \<times> string
     \<Rightarrow> error + (session \<times> memory_service)" where
  "add_turn ms session_id user_input assistant_response nows =
     (case nows of (now0, now1, now2) \<Rightarrow>
        (case get_session ms session_id now0 of (s0, ms0) \<Rightarrow>
           (let h1 = history s0 @ [\<lparr> turn_type = ''user'', turn_text = user_input,
                                    timestamp = now1 \<rparr>];
                h2 = h1 @ [\<lparr> turn_type = ''assistant'', turn_text = assistant_response,
                             timestamp = now2 \<rparr>];
                max_entries = max_turns ms0 * 2;
                s1 = s0\<lparr> history := slice_last max_entries h2 \<rparr>
            in case update_derived_state s1 user_input assistant_response of
                 Inl e \<Rightarrow> Inl e
               | Inr s2 \<Rightarrow>
                   (let s3 = s2\<lparr> derived_state := (derived_state s2)
                               \<lparr> total_interactions := total_interactions (derived_state s2) + 1 \<rparr> \<rparr>
                    in Inr (s3, put_session ms0 session_id s3)))))"

definition progress_letter ::
  "memory_service \<Rightarrow> string \<Rightarrow> string \<Rightarrow> string \<Rightarrow> string \<Rightarrow> bool \<times> memory_service" where
  "progress_letter ms session_id from_letter to_letter now =
     (case get_session ms session_id now of (s, ms0) \<Rightarrow>
        (True, put_session ms0 session_id
                 (s\<lparr> derived_state := (derived_state s)\<lparr> current_letter := to_letter \<rparr> \<rparr>)))"

definition get_derived_state :: "memory_service \<Rightarrow> string \<Rightarrow> string \<Rightarrow> derived \<times> memory_service" where
  "get_derived_state ms session_id now =
     (case get_session ms session_id now of (s, ms0) \<Rightarrow> (derived_state s, ms0))"

text \<open>\<^verbatim>\<open>if limit:\<close> fails for \<^verbatim>\<open>None\<close> and for 0.\<close>

definition get_conversation_history ::
  "memory_service \<Rightarrow> string \<Rightarrow> int option \<Rightarrow> string \<Rightarrow> turn list \<times> memory_service" where
  "get_conversation_history ms session_id limit now =
     (case get_session ms session_id now of (s, ms0) \<Rightarrow>
        (case limit of
           None \<Rightarrow> (history s, ms0)
         | Some l \<Rightarrow> (if l \<noteq> 0 then (slice_last l (history s), ms0) else (history s, ms0))))"

definition clear_session :: "memory_service \<Rightarrow> string \<Rightarrow> bool \<times> memory_service" where
  "clear_session ms session_id =
     (case sessions ms session_id of
        Some s \<Rightarrow> (True, ms\<lparr> sessions := (sessions ms)(session_id := None) \<rparr>)
      | None \<Rightarrow> (False, ms))"

section \<open>Safety service\<close>

text \<open>
  \<^verbatim>\<open>safety_service.py\<close>. The profanity filter (the package better_profanity) and the
  regular-expression engine are libraries outside the repository, so they are parameters
  of the model: what follows holds for every behaviour of them. The four patterns of
  \<^verbatim>\<open>self.pii_patterns\<close> are named in their order: social security number, phone
  number, e-mail address, street address.
\<close>

datatype pii_pattern = SSN | Phone | Email | Address

record libraries =
  contains_profanity :: "string \<Rightarrow> bool"
  censor :: "string \<Rightarrow> string"
  re_search :: "pii_pattern \<Rightarrow> string \<Rightarrow> bool"
  re_sub :: "pii_pattern \<Rightarrow> string \<Rightarrow> string \<Rightarrow> string"

definition pii_patterns :: "pii_pattern list" where
  "pii_patterns = [SSN, Phone, Email, Address]"

definition unsafe_topics :: "string list" where
  "unsafe_topics =
     [''violence'', ''scary'', ''death'', ''blood'', ''weapon'', ''gun'', ''knife'',
      ''stranger'', ''secret'', ''password'', ''address'', ''phone number'',
      ''where do you live'', ''what school'', ''parents work'']"

fun detect_pii_loop :: "libraries \<Rightarrow> pii_pattern list \<Rightarrow> string \<Rightarrow> string list" where
  "detect_pii_loop lib [] t = []"
| "detect_pii_loop lib (pattern # rest) t =
     (if re_search lib pattern t then [''pii_detected''] else detect_pii_loop lib rest t)"

definition detect_pii :: "libraries \<Rightarrow> string \<Rightarrow> string list" where
  "detect_pii lib t = detect_pii_loop lib pii_patterns t"

definition remove_pii :: "libraries \<Rightarrow> string \<Rightarrow> string" where
  "remove_pii lib t = foldl (\<lambda>cleaned pattern. re_sub lib pattern ''[REMOVED]'' cleaned) t pii_patterns"

definition replace_char :: "char \<Rightarrow> char \<Rightarrow> string \<Rightarrow> string" where
  "replace_char a b s = map (\<lambda>c. if c = a then b else c) s"

definition detect_unsafe_topics :: "string \<Rightarrow> string list" where
  "detect_unsafe_topics t =
     (let text_lower = lower t
      in map (\<lambda>topic. ''unsafe_topic_'' @ replace_char CHR '' '' CHR ''_'' topic)
           (filter (\<lambda>topic. str_in topic text_lower) unsafe_topics))"

definition moderate_content :: "libraries \<Rightarrow> string \<Rightarrow> bool \<times> string \<times> string list" where
  "moderate_content lib t =
     (let profane = contains_profanity lib t;
          violations1 = (if profane then [''inappropriate_language''] else []);
          cleaned1 = (if profane then censor lib t else t);
          pii_found = detect_pii lib t;
          violations2 = (if pii_found \<noteq> [] then violations1 @ pii_found else violations1);
          cleaned2 = (if pii_found \<noteq> [] then remove_pii lib cleaned1 else cleaned1);
          unsafe_found = detect_unsafe_topics t;
          violations3 = (if unsafe_found \<noteq> [] then violations2 @ unsafe_found else violations2);
          is_safe = (length violations3 = 0)
      in (is_safe, cleaned2, violations3))"

definition generate_safe_response :: "string list \<Rightarrow> string" where
  "generate_safe_response violations =
     (if ''inappropriate_language'' \<in> set violations
      then ''Let'' @ [CHR 0x27] @ ''s use kind words! Can we try saying that in a nicer way?''
      else if list_ex (str_in ''pii'') violations
      then ''Remember, we don'' @ [CHR 0x27]
           @ ''t share personal information! Let'' @ [CHR 0x27]
           @ ''s focus on learning letters instead.''
      else if list_ex (str_in ''unsafe_topic'') violations
      then ''That'' @ [CHR 0x27] @ ''s not something we talk about in our alphabet lessons. Let''
           @ [CHR 0x27] @ ''s learn about letters instead!''
      else ''Let'' @ [CHR 0x27]
           @ ''s keep our conversation about learning letters! What letter would you like to practice?'')"

section \<open>Phoneme service\<close>

text \<open>
  \<^verbatim>\<open>phoneme_service.py\<close>. A phoneme is its IPA string between slashes; the IPA
  letters outside ASCII are written as their UTF-8 bytes, so two phonemes are equal here
  exactly when the Python strings are. Where the source turns a list into a set and back
  (\<^verbatim>\<open>list(set(detected))\<close>), Python fixes no order; the model keeps the order of first
  occurrence.
\<close>

definition ipa_ae :: string where "ipa_ae = [CHR 0xC3, CHR 0xA6]"
definition ipa_alpha :: string where "ipa_alpha = [CHR 0xC9, CHR 0x91]"
definition ipa_turned_alpha :: string where "ipa_turned_alpha = [CHR 0xC9, CHR 0x92]"
definition ipa_schwa :: string where "ipa_schwa = [CHR 0xC9, CHR 0x99]"
definition ipa_epsilon :: string where "ipa_epsilon = [CHR 0xC9, CHR 0x9B]"
definition ipa_small_i :: string where "ipa_small_i = [CHR 0xC9, CHR 0xAA]"
definition ipa_esh :: string where "ipa_esh = [CHR 0xCA, CHR 0x83]"
definition ipa_upsilon :: string where "ipa_upsilon = [CHR 0xCA, CHR 0x8A]"
definition ipa_turned_v :: string where "ipa_turned_v = [CHR 0xCA, CHR 0x8C]"
definition ipa_ezh :: string where "ipa_ezh = [CHR 0xCA, CHR 0x92]"
definition ipa_long :: string where "ipa_long = [CHR 0xCB, CHR 0x90]"

definition ph_long_a :: string where "ph_long_a = ''/e'' @ ipa_small_i @ ''/''"
definition ph_short_a :: string where "ph_short_a = ''/'' @ ipa_ae @ ''/''"
definition ph_long_e :: string where "ph_long_e = ''/i'' @ ipa_long @ ''/''"
definition ph_short_e :: string where "ph_short_e = ''/'' @ ipa_epsilon @ ''/''"
definition ph_long_i :: string where "ph_long_i = ''/a'' @ ipa_small_i @ ''/''"
definition ph_short_i :: string where "ph_short_i = ''/'' @ ipa_small_i @ ''/''"
definition ph_long_o :: string where "ph_long_o = ''/o'' @ ipa_upsilon @ ''/''"
definition ph_short_o :: string where "ph_short_o = ''/'' @ ipa_turned_alpha @ ''/''"
definition ph_long_u :: string where "ph_long_u = ''/ju'' @ ipa_long @ ''/''"
definition ph_short_u :: string where "ph_short_u = ''/'' @ ipa_turned_v @ ''/''"

definition letter_phonemes :: "(string \<times> string list) list" where
  "letter_phonemes =
     [(''A'', [ph_long_a, ph_short_a]),
      (''B'', [''/bi'' @ ipa_long @ ''/'']),
      (''C'', [''/si'' @ ipa_long @ ''/'']),
      (''D'', [''/di'' @ ipa_long @ ''/'']),
      (''E'', [ph_long_e, ph_short_e]),
      (''F'', [''/'' @ ipa_epsilon @ ''f/'']),
      (''G'', [''/d'' @ ipa_ezh @ ''i'' @ ipa_long @ ''/'']),
      (''H'', [''/e'' @ ipa_small_i @ ''t'' @ ipa_esh @ ''/'']),
      (''I'', [ph_long_i, ph_short_i]),
      (''J'', [''/d'' @ ipa_ezh @ ''e'' @ ipa_small_i @ ''/'']),
      (''K'', [''/ke'' @ ipa_small_i @ ''/'']),
      (''L'', [''/'' @ ipa_epsilon @ ''l/'']),
      (''M'', [''/'' @ ipa_epsilon @ ''m/'']),
      (''N'', [''/'' @ ipa_epsilon @ ''n/'']),
      (''O'', [ph_long_o, ph_short_o]),
      (''P'', [''/pi'' @ ipa_long @ ''/'']),
      (''Q'', [''/kju'' @ ipa_long @ ''/'']),
      (''R'', [''/'' @ ipa_alpha @ ipa_long @ ''r/'']),
      (''S'', [''/'' @ ipa_epsilon @ ''s/'']),
      (''T'', [''/ti'' @ ipa_long @ ''/'']),
      (''U'', [ph_long_u, ph_short_u]),
      (''V'', [''/vi'' @ ipa_long @ ''/'']),
      (''W'', [''/d'' @ ipa_turned_v @ ''b'' @ ipa_schwa @ ''lju'' @ ipa_long @ ''/'']),
      (''X'', [''/'' @ ipa_epsilon @ ''ks/'']),
      (''Y'', [''/wa'' @ ipa_small_i @ ''/'']),
      (''Z'', [''/zi'' @ ipa_long @ ''/'', ''/z'' @ ipa_epsilon @ ''d/''])]"

definition phoneme_patterns :: "(string \<times> string list) list" where
  "phoneme_patterns =
     [(ph_long_a, [''ay'', ''a_e'', ''ai'']),
      (ph_short_a, [''a'']),
      (ph_long_e, [''ee'', ''ea'', ''e_e'']),
      (ph_short_e, [''e'']),
      (ph_long_i, [''i_e'', ''igh'', ''y'']),
      (ph_short_i, [''i'']),
      (ph_long_o, [''o_e'', ''oa'', ''ow'']),
      (ph_short_o, [''o'']),
      (ph_long_u, [''u_e'', ''ue'']),
      (ph_short_u, [''u''])]"

definition pronunciation_tips :: "(string \<times> string) list" where
  "pronunciation_tips =
     [(ph_long_a, ''Say '' @ [CHR 0x27] @ ''ay'' @ [CHR 0x27] @ '' like in '' @ [CHR 0x27] @ ''play'' @ [CHR 0x27]),
      (ph_short_a, ''Say '' @ [CHR 0x27] @ ''a'' @ [CHR 0x27] @ '' like in '' @ [CHR 0x27] @ ''cat'' @ [CHR 0x27]),
      (ph_long_e, ''Say '' @ [CHR 0x27] @ ''ee'' @ [CHR 0x27] @ '' like in '' @ [CHR 0x27] @ ''see'' @ [CHR 0x27]),
      (ph_short_e, ''Say '' @ [CHR 0x27] @ ''e'' @ [CHR 0x27] @ '' like in '' @ [CHR 0x27] @ ''bed'' @ [CHR 0x27]),
      (ph_long_i, ''Say '' @ [CHR 0x27] @ ''i'' @ [CHR 0x27] @ '' like in '' @ [CHR 0x27] @ ''kite'' @ [CHR 0x27]),
      (ph_short_i, ''Say '' @ [CHR 0x27] @ ''i'' @ [CHR 0x27] @ '' like in '' @ [CHR 0x27] @ ''sit'' @ [CHR 0x27]),
      (ph_long_o, ''Say '' @ [CHR 0x27] @ ''o'' @ [CHR 0x27] @ '' like in '' @ [CHR 0x27] @ ''go'' @ [CHR 0x27]),
      (ph_short_o, ''Say '' @ [CHR 0x27] @ ''o'' @ [CHR 0x27] @ '' like in '' @ [CHR 0x27] @ ''hot'' @ [CHR 0x27]),
      (ph_long_u, ''Say '' @ [CHR 0x27] @ ''u'' @ [CHR 0x27] @ '' like in '' @ [CHR 0x27] @ ''cute'' @ [CHR 0x27]),
      (ph_short_u, ''Say '' @ [CHR 0x27] @ ''u'' @ [CHR 0x27] @ '' like in '' @ [CHR 0x27] @ ''cup'' @ [CHR 0x27])]"

text \<open>The scores are Python floats, IEEE doubles. A float is modelled by the rational it
  denotes, and each operation by the exact operation followed by \<open>fl\<close>, the rounding to
  the nearest double (53 significant bits, a tie going to the even significand); the
  quotients of list lengths and the sums that occur here are far from overflow and
  underflow. \<^verbatim>\<open>round(x, 2)\<close> rounds the exact value of \<open>x\<close> to the nearest hundredth, a
  tie going to the even one, and returns the double nearest to that decimal.\<close>

record phoneme_analysis =
  detected_phonemes :: "string list"
  expected_phonemes :: "string list"
  accuracy_score :: rat
  feedback :: string
  pronunciation_tips_of :: "string list"

definition is_word_char :: "char \<Rightarrow> bool" where
  "is_word_char c =
     (isalpha_char c \<or> (ord CHR ''0'' \<le> ord c \<and> ord c \<le> ord CHR ''9'') \<or> c = CHR ''_'')"

fun join_space :: "string list \<Rightarrow> string" where
  "join_space [] = []"
| "join_space [w] = w"
| "join_space (w # v # ws) = w @ '' '' @ join_space (v # ws)"

definition normalize_transcript :: "string \<Rightarrow> string" where
  "normalize_transcript transcript =
     (if transcript = [] then []
      else join_space (split_ws (filter (\<lambda>c. is_word_char c \<or> isspace_char c) (lower transcript))))"

text \<open>\<^verbatim>\<open>self.letter_phonemes[target_letter]\<close> raises KeyError for a letter outside the
  table; the lookup is made only when the letter name occurs in the transcript.\<close>

definition detect_phonemes :: "string \<Rightarrow> string \<Rightarrow> error + string list" where
  "detect_phonemes transcript target_letter =
     (let by_patterns =
            concat (map (\<lambda>(ph, patterns).
                           concat (map (\<lambda>pattern. if str_in pattern transcript then [ph] else [])
                                     patterns))
                      phoneme_patterns)
      in if str_in (lower target_letter) transcript
         then (case map_of letter_phonemes target_letter of
                 None \<Rightarrow> Inl KeyError
               | Some phs \<Rightarrow> Inr (remdups (phs @ by_patterns)))
         else Inr (remdups by_patterns))"

definition round_half_even :: "rat \<Rightarrow> int" where
  "round_half_even x =
     (let f = \<lfloor>x\<rfloor>; d = x - of_int f
      in if d < 1 / 2 then f else if d > 1 / 2 then f + 1 else if even f then f else f + 1)"

definition pow2 :: "int \<Rightarrow> rat" where
  "pow2 e = (if e \<ge> 0 then 2 ^ nat e else 1 / 2 ^ nat (- e))"

text \<open>The binary exponent of a non-zero rational: the \<open>e\<close> with
  \<open>2 ^ e \<le> \<bar>x\<bar> < 2 ^ (e + 1)\<close>, from the bit lengths of numerator and denominator.\<close>

definition float_exponent :: "rat \<Rightarrow> int" where
  "float_exponent x =
     (case quotient_of \<bar>x\<bar> of (p, q) \<Rightarrow>
        (let d = bitlen p - bitlen q in if pow2 d \<le> \<bar>x\<bar> then d else d - 1))"

definition fl :: "rat \<Rightarrow> rat" where
  "fl x =
     (if x = 0 then 0
      else (let ulp = pow2 (float_exponent x - 52)
            in of_int (round_half_even (x / ulp)) * ulp))"

definition round2 :: "rat \<Rightarrow> rat" where
  "round2 x = fl (of_int (round_half_even (x * 100)) / 100)"

text \<open>The float literals of the source.\<close>

definition float_0_2 :: rat where "float_0_2 = fl (2 / 10)"
definition float_0_4 :: rat where "float_0_4 = fl (4 / 10)"
definition float_0_6 :: rat where "float_0_6 = fl (6 / 10)"
definition float_0_8 :: rat where "float_0_8 = fl (8 / 10)"

definition calculate_accuracy :: "string list \<Rightarrow> string list \<Rightarrow> rat" where
  "calculate_accuracy detected expected =
     (if expected = [] then 0
      else if detected = [] then 0
      else
        (let matches = card (set detected \<inter> set expected);
             total_expected = length expected;
             accuracy = fl (of_nat matches / of_nat total_expected);
             accuracy1 = (if set detected = set expected
                          then min 1 (fl (accuracy + float_0_2))
                          else accuracy)
         in round2 accuracy1))"

definition generate_feedback :: "rat \<Rightarrow> string \<Rightarrow> bool \<Rightarrow> string" where
  "generate_feedback accuracy target_letter phonics_mode =
     (if accuracy \<ge> float_0_8
      then ''Excellent! You pronounced '' @ [CHR 0x27] @ target_letter @ [CHR 0x27] @ '' perfectly!''
      else if accuracy \<ge> float_0_6
      then ''Good job! Your '' @ [CHR 0x27] @ target_letter @ [CHR 0x27] @ '' sound is almost perfect.''
      else if accuracy \<ge> float_0_4
      then ''Nice try! Let'' @ [CHR 0x27] @ ''s practice the '' @ [CHR 0x27] @ target_letter
           @ [CHR 0x27] @ '' sound together.''
      else if phonics_mode
      then ''Let'' @ [CHR 0x27] @ ''s work on the '' @ [CHR 0x27] @ target_letter @ [CHR 0x27]
           @ '' sound. Listen carefully...''
      else ''Let'' @ [CHR 0x27] @ ''s practice saying the letter '' @ [CHR 0x27] @ target_letter
           @ [CHR 0x27] @ '' together.'')"

definition mouth_tips :: "(string \<times> string) list" where
  "mouth_tips =
     [(''A'', ''Open your mouth wide''),
      (''E'', ''Smile while saying the sound''),
      (''I'', ''Make your mouth small and round''),
      (''O'', ''Make your lips round like a circle''),
      (''U'', ''Push your lips forward'')]"

definition get_pronunciation_tips :: "string list \<Rightarrow> string list \<Rightarrow> string \<Rightarrow> string list" where
  "get_pronunciation_tips detected expected target_letter =
     (let missing_phonemes = filter (\<lambda>p. p \<notin> set detected) (remdups expected);
          tips1 = concat (map (\<lambda>p. case map_of pronunciation_tips p of
                                       None \<Rightarrow> [] | Some tip \<Rightarrow> [tip]) missing_phonemes);
          tips2 = (if tips1 = []
                   then [''Try saying '' @ [CHR 0x27] @ target_letter @ [CHR 0x27]
                         @ '' clearly and slowly'']
                   else tips1);
          tips3 = (case map_of mouth_tips target_letter of
                     None \<Rightarrow> tips2 | Some tip \<Rightarrow> tips2 @ [tip])
      in take 3 tips3)"

definition create_error_analysis :: "string \<Rightarrow> phoneme_analysis" where
  "create_error_analysis error_msg =
     \<lparr> detected_phonemes = [], expected_phonemes = [], accuracy_score = 0,
       feedback = ''Sorry, I couldn'' @ [CHR 0x27] @ ''t analyze that. '' @ error_msg,
       pronunciation_tips_of = [''Please try speaking clearly into the microphone''] \<rparr>"

text \<open>\<^verbatim>\<open>analyze_pronunciation\<close>; an exception inside the \<^verbatim>\<open>try\<close> block gives the
  error analysis.\<close>

definition analyze_pronunciation :: "string \<Rightarrow> string \<Rightarrow> bool \<Rightarrow> phoneme_analysis" where
  "analyze_pronunciation audio_transcript target_letter0 phonics_mode =
     (let target_letter = upper target_letter0
      in case map_of letter_phonemes target_letter of
           None \<Rightarrow> create_error_analysis ''Invalid target letter''
         | Some expected \<Rightarrow>
             (let transcript = normalize_transcript audio_transcript
              in case detect_phonemes transcript target_letter of
                   Inl e \<Rightarrow> create_error_analysis ''Analysis failed''
                 | Inr detected \<Rightarrow>
                     (let accuracy = calculate_accuracy detected expected
                      in \<lparr> detected_phonemes = detected,
                           expected_phonemes = expected,
                           accuracy_score = accuracy,
                           feedback = generate_feedback accuracy target_letter phonics_mode,
                           pronunciation_tips_of =
                             get_pronunciation_tips detected expected target_letter \<rparr>)))"

text \<open>The detection rule as the specification words it: all the phonemes of the target
  letter when the name of the letter occurs in the normalized transcript, and every phoneme
  of the pattern table one of whose patterns occurs in it.\<close>

definition spec_detected :: "string \<Rightarrow> string \<Rightarrow> string set" where
  "spec_detected transcript letter =
     (if str_in (lower letter) transcript
      then set (get_or (map_of letter_phonemes letter) [])
      else {})
     \<union> set (map fst (filter (\<lambda>entry. list_ex (\<lambda>pattern. str_in pattern transcript) (snd entry))
                         phoneme_patterns))"

text \<open>The scoring rule as the specification words it, on the sets of detected and of
  expected phonemes.\<close>

definition spec_accuracy :: "string set \<Rightarrow> string set \<Rightarrow> rat" where
  "spec_accuracy detected expected =
     (if expected = {} \<or> detected = {} then 0
      else if detected = expected
      then min 1 (of_nat (card (detected \<inter> expected)) / of_nat (card expected) + 2 / 10)
      else of_nat (card (detected \<inter> expected)) / of_nat (card expected))"

section \<open>Agent service\<close>

text \<open>
  \<^verbatim>\<open>agent_service.py\<close>. An agent holds its session identifier and the shared
  curriculum and memory services; an operation returns the agent with the memory as the
  operation left it. The metadata dict of \<^verbatim>\<open>generate_response\<close> is a record whose
  optional keys are options. The clock reading is the one of the lazy creation of the
  session.
\<close>

record agent_service =
  session_id :: string
  curriculum :: curriculum_service
  memory :: memory_service

record metadata =
  md_current_letter :: string
  is_correct :: bool
  needs_practice :: bool
  progress_made :: bool
  new_letter :: "string option"
  curriculum_complete :: "bool option"

record command_info =
  command_type :: string
  command_new_letter :: "string option"

definition completion_text :: "string \<Rightarrow> string" where
  "completion_text fb =
     fb @ '' Wow! You'' @ [CHR 0x27] @ ''ve learned the whole alphabet! You'' @ [CHR 0x27]
     @ ''re amazing!''"

definition progression_text :: "curriculum_service \<Rightarrow> string \<Rightarrow> string \<Rightarrow> string" where
  "progression_text cs fb next_letter =
     (case get_lesson cs next_letter of
        None \<Rightarrow> fb @ '' Great job! Let'' @ [CHR 0x27] @ ''s try the letter '' @ next_letter @ ''.''
      | Some next_lesson \<Rightarrow>
          if next_lesson \<noteq> empty_lesson
          then fb @ '' Now let'' @ [CHR 0x27] @ ''s learn '' @ next_letter @ ''! ''
               @ get_or (prompt next_lesson) []
          else fb @ '' Great job! Let'' @ [CHR 0x27] @ ''s try the letter '' @ next_letter @ ''.'')"

text \<open>\<^verbatim>\<open>generate_response\<close>. The test \<^verbatim>\<open>if next_letter:\<close> fails for \<^verbatim>\<open>None\<close> and
  for the empty string.\<close>

definition generate_response ::
  "agent_service \<Rightarrow> string \<Rightarrow> string \<Rightarrow> error + (string \<times> metadata \<times> agent_service)" where
  "generate_response ag user_input now =
     (case get_derived_state (memory ag) (session_id ag) now of (state, mem1) \<Rightarrow>
        (let cur = current_letter state;
             checked = check_pronunciation (curriculum ag) user_input cur;
             correct = fst checked;
             fb = snd checked;
             md = \<lparr> md_current_letter = cur, is_correct = correct,
                    needs_practice = (\<not> correct), progress_made = False,
                    new_letter = None, curriculum_complete = None \<rparr>
         in if correct
            then (case get_next_letter cur of
                    Inl e \<Rightarrow> Inl e
                  | Inr None \<Rightarrow>
                      Inr (completion_text fb, md\<lparr> curriculum_complete := Some True \<rparr>,
                           ag\<lparr> memory := mem1 \<rparr>)
                  | Inr (Some next_letter) \<Rightarrow>
                      if next_letter \<noteq> []
                      then (case progress_letter mem1 (session_id ag) cur next_letter now of
                              (ok, mem2) \<Rightarrow>
                                Inr (progression_text (curriculum ag) fb next_letter,
                                     md\<lparr> progress_made := True, new_letter := Some next_letter \<rparr>,
                                     ag\<lparr> memory := mem2 \<rparr>))
                      else Inr (completion_text fb, md\<lparr> curriculum_complete := Some True \<rparr>,
                                ag\<lparr> memory := mem1 \<rparr>))
            else Inr (fb, md, ag\<lparr> memory := mem1 \<rparr>)))"

definition skip_text :: "curriculum_service \<Rightarrow> string \<Rightarrow> string" where
  "skip_text cs next_letter =
     ''Okay! ''
     @ (case get_lesson cs next_letter of
          None \<Rightarrow> ''Let'' @ [CHR 0x27] @ ''s try '' @ next_letter @ ''!''
        | Some lesson \<Rightarrow>
            if lesson \<noteq> empty_lesson
            then get_or (prompt lesson) (''Let'' @ [CHR 0x27] @ ''s learn '' @ next_letter @ ''!'')
            else ''Let'' @ [CHR 0x27] @ ''s try '' @ next_letter @ ''!'')"

text \<open>\<^verbatim>\<open>handle_special_commands\<close>: a chain of \<^verbatim>\<open>if\<close>/\<^verbatim>\<open>elif\<close>; a branch that is
  entered and does not return falls through to \<^verbatim>\<open>return None\<close>.\<close>

definition handle_special_commands ::
  "agent_service \<Rightarrow> string \<Rightarrow> string
     \<Rightarrow> error + ((string \<times> command_info) option \<times> agent_service)" where
  "handle_special_commands ag user_input now =
     (let user_lower = strip (lower user_input)
      in if user_lower \<in> set [''help'', ''what do i do'', ''i don'' @ [CHR 0x27] @ ''t know'']
         then (case get_derived_state (memory ag) (session_id ag) now of (state, mem1) \<Rightarrow>
                 (case get_lesson (curriculum ag) (current_letter state) of
                    None \<Rightarrow> Inr (None, ag\<lparr> memory := mem1 \<rparr>)
                  | Some lesson \<Rightarrow>
                      if lesson \<noteq> empty_lesson
                      then Inr (Some (get_or (prompt lesson)
                                        (''Let'' @ [CHR 0x27] @ ''s practice the letter ''
                                         @ current_letter state @ ''!''),
                                      \<lparr> command_type = ''help'', command_new_letter = None \<rparr>),
                                ag\<lparr> memory := mem1 \<rparr>)
                      else Inr (None, ag\<lparr> memory := mem1 \<rparr>)))
         else if user_lower \<in> set [''repeat'', ''say that again'', ''what'']
         then (case get_conversation_history (memory ag) (session_id ag) (Some 2) now of
                 (hist, mem1) \<Rightarrow>
                   if hist \<noteq> [] \<and> turn_type (last hist) = ''assistant''
                   then Inr (Some (turn_text (last hist),
                                   \<lparr> command_type = ''repeat'', command_new_letter = None \<rparr>),
                             ag\<lparr> memory := mem1 \<rparr>)
                   else Inr (None, ag\<lparr> memory := mem1 \<rparr>))
         else if str_in ''next letter'' user_lower \<or> str_in ''skip'' user_lower
         then (case get_derived_state (memory ag) (session_id ag) now of (state, mem1) \<Rightarrow>
                 (case get_next_letter (current_letter state) of
                    Inl e \<Rightarrow> Inl e
                  | Inr None \<Rightarrow> Inr (None, ag\<lparr> memory := mem1 \<rparr>)
                  | Inr (Some next_letter) \<Rightarrow>
                      if next_letter \<noteq> []
                      then (case progress_letter mem1 (session_id ag) (current_letter state)
                                   next_letter now of
                              (ok, mem2) \<Rightarrow>
                                Inr (Some (skip_text (curriculum ag) next_letter,
                                           \<lparr> command_type = ''skip'',
                                             command_new_letter = Some next_letter \<rparr>),
                                     ag\<lparr> memory := mem2 \<rparr>))
                      else Inr (None, ag\<lparr> memory := mem1 \<rparr>)))
         else Inr (None, ag))"

text \<open>\<^verbatim>\<open>update_memory\<close> of \<^verbatim>\<open>livekit_voice_agent.py\<close>, the caller of
  \<^verbatim>\<open>add_turn\<close>: it writes when at least one of the two texts is not empty.\<close>

definition update_memory ::
  "agent_service \<Rightarrow> string \<Rightarrow> string \<Rightarrow> string \<times> string \<times> string \<Rightarrow> error + agent_service" where
  "update_memory ag user_input assistant_response nows =
     (if user_input \<noteq> [] \<or> assistant_response \<noteq> []
      then (case add_turn (memory ag) (session_id ag) user_input assistant_response nows of
              Inl e \<Rightarrow> Inl e
            | Inr (s, mem1) \<Rightarrow> Inr (ag\<lparr> memory := mem1 \<rparr>))
      else Inr ag)"

text \<open>The operations an agent performs on its session, each with the clock readings it
  may take.\<close>

datatype operation =
  GenerateResponse string string
  | HandleSpecialCommands string string
  | UpdateMemory string string "string \<times> string \<times> string"

definition perform :: "agent_service \<Rightarrow> operation \<Rightarrow> error + agent_service" where
  "perform ag op =
     (case op of
        GenerateResponse user_input now \<Rightarrow>
          (case generate_response ag user_input now of
             Inl e \<Rightarrow> Inl e
           | Inr (response, md, ag1) \<Rightarrow> Inr ag1)
      | HandleSpecialCommands user_input now \<Rightarrow>
          (case handle_special_commands ag user_input now of
             Inl e \<Rightarrow> Inl e
           | Inr (result, ag1) \<Rightarrow> Inr ag1)
      | UpdateMemory user_input assistant_response nows \<Rightarrow>
          update_memory ag user_input assistant_response nows)"

text \<open>A run of operations; the result lists every state passed through, the first one
  included. An exception ends the run.\<close>

fun run :: "agent_service \<Rightarrow> operation list \<Rightarrow> error + agent_service list" where
  "run ag [] = Inr [ag]"
| "run ag (op # ops) =
     (case perform ag op of
        Inl e \<Rightarrow> Inl e
      | Inr ag1 \<Rightarrow> (case run ag1 ops of Inl e \<Rightarrow> Inl e | Inr states \<Rightarrow> Inr (ag # states)))"

text \<open>The current letter of the agent's session as \<^verbatim>\<open>get_derived_state\<close> reports it:
  the letter A for a session not yet created.\<close>

definition letter_of :: "agent_service \<Rightarrow> string" where
  "letter_of ag = current_letter (fst (get_derived_state (memory ag) (session_id ag) []))"

definition uppercase_letters :: "string list" where
  "uppercase_letters = map (\<lambda>c. [c]) ''ABCDEFGHIJKLMNOPQRSTUVWXYZ''"

section \<open>Example states\<close>

text \<open>A lesson table with entries for A, B and Z in the format of the built-in lesson, a
  curriculum service holding it, and agents on the default memory service.\<close>

definition sample_lessons :: lessons_table where
  "sample_lessons =
     [''A'' \<mapsto> \<lparr> phoneme = None, phoneme_clue = Some ''ah'',
                  examples = Some [''Apple'', ''Ant''], activity = None,
                  prompt = Some ''This is the letter A.'' \<rparr>,
      ''B'' \<mapsto> \<lparr> phoneme = None, phoneme_clue = Some ''buh'',
                  examples = Some [''Ball'', ''Bear''], activity = None,
                  prompt = Some ''This is the letter B.'' \<rparr>,
      ''Z'' \<mapsto> \<lparr> phoneme = None, phoneme_clue = Some ''zz'',
                  examples = Some [''Zebra'', ''Zoo''], activity = None,
                  prompt = Some ''This is the letter Z.'' \<rparr>]"

definition sample_curriculum :: curriculum_service where
  "sample_curriculum =
     \<lparr> lessons_file = ''app/lessons.json'', lessons = sample_lessons,
       phoneme_map = build_phoneme_map sample_lessons \<rparr>"

definition sample_agent :: agent_service where
  "sample_agent =
     \<lparr> session_id = ''default'', curriculum = sample_curriculum, memory = MemoryService 3 \<rparr>"

definition sample_session_at_Z :: session where
  "sample_session_at_Z =
     \<lparr> history = [],
       derived_state = \<lparr> current_letter = ''Z'', child_name = None, difficulty = ''easy'',
                         last_mistake = None, session_start = ''2025-01-01T10:00:00'',
                         total_interactions = 25 \<rparr> \<rparr>"

definition sample_agent_at_Z :: agent_service where
  "sample_agent_at_Z =
     sample_agent\<lparr> memory := put_session (MemoryService 3) ''default'' sample_session_at_Z \<rparr>"

definition sample_nows :: "string \<times> string \<times> string" where
  "sample_nows = (''2025-01-01T10:00:00'', ''2025-01-01T10:00:01'', ''2025-01-01T10:00:02'')"

text \<open>What a call that may raise returned: the session of \<^verbatim>\<open>add_turn\<close>, if any.\<close>

definition returned_session :: "error + (session \<times> memory_service) \<Rightarrow> session option" where
  "returned_session r = (case r of Inl e \<Rightarrow> None | Inr (s, ms) \<Rightarrow> Some s)"

definition user_turn :: "string \<Rightarrow> string \<Rightarrow> turn" where
  "user_turn t now = \<lparr> turn_type = ''user'', turn_text = t, timestamp = now \<rparr>"

definition assistant_turn :: "string \<Rightarrow> string \<Rightarrow> turn" where
  "assistant_turn t now = \<lparr> turn_type = ''assistant'', turn_text = t, timestamp = now \<rparr>"

text \<open>Stand-ins for the two libraries, for the examples: a profanity filter that knows one
  word and a pattern engine that takes any text with an at sign for an e-mail address.\<close>

definition sample_libraries :: libraries where
  "sample_libraries =
     \<lparr> contains_profanity = (\<lambda>t. str_in ''darn'' (lower t)),
       censor = (\<lambda>t. ''****''),
       re_search = (\<lambda>p t. p = Email \<and> str_in ''@'' t),
       re_sub = (\<lambda>p r t. if p = Email \<and> str_in ''@'' t then r else t) \<rparr>"

text \<open>The order of the alphabet on current letters: the position of a one-letter string
  (A is 0), and the successor relation \<^verbatim>\<open>chr(ord(l) + 1)\<close>. A sequence of letters moves
  forward when each one holds the one before it or is its successor.\<close>

definition letter_position :: "string \<Rightarrow> int" where
  "letter_position l = (case l of [c] \<Rightarrow> ord c - ord CHR ''A'' | _ \<Rightarrow> - 1)"

definition next_in_alphabet :: "string \<Rightarrow> string \<Rightarrow> bool" where
  "next_in_alphabet l l' = (case l of [c] \<Rightarrow> l' = [chr (ord c + 1)] | _ \<Rightarrow> False)"

definition holds_or_advances :: "string \<Rightarrow> string \<Rightarrow> bool" where
  "holds_or_advances l l' = (l' = l \<or> next_in_alphabet l l')"

fun moves_forward :: "string list \<Rightarrow> bool" where
  "moves_forward (l # l' # ls) = (holds_or_advances l l' \<and> moves_forward (l' # ls))"
| "moves_forward ls = True"

definition sample_operations :: "operation list" where
  "sample_operations =
     [GenerateResponse ''apple'' ''2025-01-01T10:00:00'',
      UpdateMemory ''apple'' ''Great job!'' sample_nows,
      GenerateResponse ''cat'' ''2025-01-01T10:00:03'',
      HandleSpecialCommands ''skip this one'' ''2025-01-01T10:00:04'']"

section \<open>The successor letter\<close>

text \<open>
  Claim C4. \<^verbatim>\<open>get_next_letter('Z')\<close> returns none, \<^verbatim>\<open>get_next_letter('')\<close> returns
  the letter A, and for every letter L from A to Y \<^verbatim>\<open>get_next_letter(L)\<close> returns the
  letter \<^verbatim>\<open>chr(ord(L)+1)\<close>; none of these calls raises.
\<close>

theorem get_next_letter_spec:
  "get_next_letter ''Z'' = Inr None
   \<and> get_next_letter [] = Inr (Some ''A'')
   \<and> (\<forall>L \<in> set ''ABCDEFGHIJKLMNOPQRSTUVWXY''.
         get_next_letter [L] = Inr (Some [chr (ord L + 1)]))"
  by code_simp

theorem get_next_letter_spec_witness:
  "CHR ''M'' \<in> set ''ABCDEFGHIJKLMNOPQRSTUVWXY'' \<and> get_next_letter ''M'' = Inr (Some ''N'')"
proof -
  have m: "CHR ''M'' \<in> set ''ABCDEFGHIJKLMNOPQRSTUVWXY''" by simp
  have "get_next_letter ''M'' = Inr (Some [chr (ord CHR ''M'' + 1)])"
    using get_next_letter_spec m by blast
  moreover have "chr (ord CHR ''M'' + 1) = CHR ''N''" by code_simp
  ultimately show ?thesis using m by simp
qed

section \<open>Reloading the lessons\<close>

text \<open>
  Claim C1: a reload whose lessons file fails to parse keeps the loaded table and returns
  false. The code does not do so when the failure is a JSONDecodeError:
  \<^verbatim>\<open>_load_lessons\<close> catches it and returns the built-in table, so the reload of a
  service holding the lessons A, B and Z returns true, with the built-in table (the lesson
  B is lost) and the phoneme map built from it.
\<close>

theorem reload_parse_failure_replaces_table:
  "reload_lessons sample_curriculum JSONDecodeError
     = (True, Some (sample_curriculum\<lparr> lessons := get_default_lessons,
                      phoneme_map := build_phoneme_map get_default_lessons \<rparr>))
   \<and> get_default_lessons ''B'' = None
   \<and> lessons sample_curriculum ''B'' \<noteq> None"
  by (simp add: reload_lessons_def load_lessons_def sample_curriculum_def sample_lessons_def
      get_default_lessons_def)

text \<open>The same holds from every state, and for a missing file. The failure branch of
  \<^verbatim>\<open>reload_lessons\<close> itself does what the claim says, for every other exception of
  the loader: the table is kept and the call returns false.\<close>

lemma reload_invalid_json_falls_back:
  "reload_lessons cs JSONDecodeError =
     (True, Some (cs\<lparr> lessons := get_default_lessons,
                     phoneme_map := build_phoneme_map get_default_lessons \<rparr>))"
  by (simp add: reload_lessons_def load_lessons_def)

lemma reload_missing_file_falls_back:
  "reload_lessons cs FileNotFoundError =
     (True, Some (cs\<lparr> lessons := get_default_lessons,
                     phoneme_map := build_phoneme_map get_default_lessons \<rparr>))"
  by (simp add: reload_lessons_def load_lessons_def)

lemma reload_other_error_keeps_table: "reload_lessons cs OtherError = (False, Some cs)"
  by (simp add: reload_lessons_def load_lessons_def)

text \<open>A reload that returns true leaves the phoneme map the one built from the lesson
  table. A reload that returns false leaves the service as it was, or (when the build
  raised) outside the model, with new lessons and the old phoneme map.\<close>

lemma reload_true_builds_phoneme_map:
  "reload_lessons cs fo = (True, r)
   \<Longrightarrow> \<exists>cs'. r = Some cs' \<and> phoneme_map cs' = build_phoneme_map (lessons cs')"
  by (cases fo) (auto simp: reload_lessons_def load_lessons_def)

lemma reload_false_cases:
  "reload_lessons cs fo = (False, r)
   \<Longrightarrow> (fo = OtherError \<and> r = Some cs) \<or> (fo = ParsedUnbuildable \<and> r = None)"
  by (cases fo) (auto simp: reload_lessons_def load_lessons_def)

section \<open>The memory service never raises\<close>

text \<open>The two indexings of the name extraction are safe: a split has at least one piece,
  and a stripped text that is not empty has a token. So \<^verbatim>\<open>add_turn\<close> returns, and
  what it returns is described by \<open>add_turn_returns\<close>.\<close>

lemma split_sep_aux_nonempty: "split_sep_aux sep acc s \<noteq> []"
  by (induction sep acc s rule: split_sep_aux.induct) auto

lemma split_ws_aux_nonempty:
  "acc \<noteq> [] \<or> list_ex (\<lambda>c. \<not> isspace_char c) s \<Longrightarrow> split_ws_aux acc s \<noteq> []"
  by (induction s arbitrary: acc) auto

lemma strip_has_nonspace:
  assumes "strip s \<noteq> []"
  shows "list_ex (\<lambda>c. \<not> isspace_char c) (strip s)"
proof -
  let ?t = "dropWhile isspace_char (rev (dropWhile isspace_char s))"
  from assms have ne: "?t \<noteq> []" by (simp add: strip_def)
  then have "\<not> isspace_char (hd ?t)" by (rule hd_dropWhile)
  moreover from ne have "hd ?t \<in> set ?t" by simp
  ultimately have "\<exists>c \<in> set (strip s). \<not> isspace_char c"
    unfolding strip_def by auto
  then show ?thesis by (simp add: list_ex_iff)
qed

lemma split_ws_strip_nonempty: "strip s \<noteq> [] \<Longrightarrow> split_ws (strip s) \<noteq> []"
  unfolding split_ws_def by (rule split_ws_aux_nonempty) (simp add: strip_has_nonspace)

lemma candidate_after_returns:
  "phrase \<noteq> [] \<Longrightarrow> \<exists>cands. candidate_after phrase user_lower = Inr cands"
  using split_sep_aux_nonempty [of phrase "[]" user_lower]
    split_ws_strip_nonempty [of "last (split_sep_aux phrase [] user_lower)"]
  by (auto simp: candidate_after_def split_sep_def last_item_def first_item_def Let_def
      split: list.splits)

lemma name_candidates_returns: "\<exists>cands. name_candidates user_lower = Inr cands"
proof -
  obtain c1 where c1: "candidate_after phrase_my_name_is user_lower = Inr c1"
    using candidate_after_returns [of phrase_my_name_is] by (auto simp: phrase_my_name_is_def)
  obtain c2 where c2: "candidate_after phrase_im user_lower = Inr c2"
    using candidate_after_returns [of phrase_im] by (auto simp: phrase_im_def)
  obtain c3 where c3: "candidate_after phrase_i_am user_lower = Inr c3"
    using candidate_after_returns [of phrase_i_am] by (auto simp: phrase_i_am_def)
  show ?thesis by (simp add: name_candidates_def c1 c2 c3)
qed

lemma update_derived_state_returns:
  "\<exists>s'. update_derived_state s u a = Inr s'
        \<and> history s' = history s
        \<and> current_letter (derived_state s') = current_letter (derived_state s)
        \<and> total_interactions (derived_state s') = total_interactions (derived_state s)"
proof -
  obtain cands where c: "name_candidates (lower u) = Inr cands"
    using name_candidates_returns by blast
  show ?thesis
    by (cases "first_name cands") (simp_all add: update_derived_state_def Let_def c)
qed

lemma add_turn_returns:
  "\<exists>s'. add_turn ms sid u a (n0, n1, n2) =
           Inr (s', put_session (snd (get_session ms sid n0)) sid s')
        \<and> history s' =
            slice_last (max_turns ms * 2)
              (history (fst (get_session ms sid n0)) @ [user_turn u n1, assistant_turn a n2])
        \<and> current_letter (derived_state s') =
            current_letter (derived_state (fst (get_session ms sid n0)))
        \<and> total_interactions (derived_state s') =
            total_interactions (derived_state (fst (get_session ms sid n0))) + 1"
proof -
  obtain s0 ms0 where g: "get_session ms sid n0 = (s0, ms0)" by (cases "get_session ms sid n0")
  have mt: "max_turns ms0 = max_turns ms"
    using g by (auto simp: get_session_def split: option.splits)
  let ?s1 = "s0\<lparr> history := slice_last (max_turns ms * 2)
                 (history s0 @ [user_turn u n1, assistant_turn a n2]) \<rparr>"
  obtain s2 where u: "update_derived_state ?s1 u a = Inr s2"
    and h: "history s2 = history ?s1"
    and l: "current_letter (derived_state s2) = current_letter (derived_state ?s1)"
    and t: "total_interactions (derived_state s2) = total_interactions (derived_state ?s1)"
    using update_derived_state_returns [of ?s1 u a] by blast
  show ?thesis
    using u h l t by (simp add: add_turn_def g mt Let_def user_turn_def assistant_turn_def)
qed

lemma length_slice_last: "0 < n \<Longrightarrow> int (length (slice_last n xs)) \<le> n"
  by (auto simp: slice_last_def)

lemma suffix_slice_last: "suffix (slice_last n xs) xs"
  by (simp add: slice_last_def suffix_drop)

section \<open>Turns and the history window\<close>

text \<open>
  Claim C2, as stated: an entry whose text is empty is not appended, so a call with one empty
  text adds one entry. It fails: \<^verbatim>\<open>add_turn\<close> has no test of the texts; on a new
  session the call with the user text hello and an empty assistant text leaves two entries,
  the second with the empty text.
\<close>

theorem add_turn_skips_empty_counterexample:
  "map_option (map turn_text \<circ> history)
     (returned_session (add_turn (MemoryService 3) ''default'' ''hello'' [] sample_nows))
   = Some [''hello'', []]"
proof -
  obtain s' where
    r: "add_turn (MemoryService 3) ''default'' ''hello'' [] sample_nows
          = Inr (s', put_session (snd (get_session (MemoryService 3) ''default''
                   ''2025-01-01T10:00:00'')) ''default'' s')"
    and h: "history s' = slice_last (max_turns (MemoryService 3) * 2)
              (history (fst (get_session (MemoryService 3) ''default'' ''2025-01-01T10:00:00''))
               @ [user_turn ''hello'' ''2025-01-01T10:00:01'',
                  assistant_turn [] ''2025-01-01T10:00:02''])"
    using add_turn_returns [of "MemoryService 3" "''default''" "''hello''" "[]"
        "''2025-01-01T10:00:00''" "''2025-01-01T10:00:01''" "''2025-01-01T10:00:02''"]
    unfolding sample_nows_def by blast
  have "map turn_text (history s') = [''hello'', []]"
    by (simp add: h MemoryService_def slice_last_def get_session_def new_session_def
        user_turn_def assistant_turn_def)
  then show ?thesis by (simp add: r returned_session_def)
qed

text \<open>
  Claim C2, amended: every call of \<^verbatim>\<open>add_turn\<close> returns and appends two entries, the
  user entry and then the assistant entry, whether or not a text is empty; the history kept
  is the slice \<^verbatim>\<open>[-2*max_turns:]\<close> of the extended history, and
  \<^verbatim>\<open>total_interactions\<close> increases by exactly 1.
\<close>

theorem add_turn_appends_both:
  "\<exists>s' ms'. add_turn ms sid u a (n0, n1, n2) = Inr (s', ms')
      \<and> sessions ms' sid = Some s'
      \<and> history s' =
          slice_last (max_turns ms * 2)
            (history (fst (get_session ms sid n0)) @ [user_turn u n1, assistant_turn a n2])
      \<and> total_interactions (derived_state s') =
          total_interactions (derived_state (fst (get_session ms sid n0))) + 1"
  using add_turn_returns [of ms sid u a n0 n1 n2] by (auto simp: put_session_def)

text \<open>
  The window after a call: whatever \<^verbatim>\<open>max_turns\<close> is, the history kept is a suffix of
  the extended history (the oldest entries go first), and for \<^verbatim>\<open>max_turns\<close> of at
  least 1 it has at most \<^verbatim>\<open>2 * max_turns\<close> entries.
\<close>

lemma add_turn_window:
  "\<exists>s' ms'. add_turn ms sid u a (n0, n1, n2) = Inr (s', ms')
      \<and> sessions ms' sid = Some s'
      \<and> suffix (history s')
          (history (fst (get_session ms sid n0)) @ [user_turn u n1, assistant_turn a n2])
      \<and> (0 < max_turns ms \<longrightarrow> int (length (history s')) \<le> 2 * max_turns ms)"
proof -
  let ?old = "history (fst (get_session ms sid n0)) @ [user_turn u n1, assistant_turn a n2]"
  obtain s' where
    r: "add_turn ms sid u a (n0, n1, n2) = Inr (s', put_session (snd (get_session ms sid n0)) sid s')"
    and h: "history s' = slice_last (max_turns ms * 2) ?old"
    using add_turn_returns [of ms sid u a n0 n1 n2] by blast
  have "suffix (history s') ?old" by (simp add: h suffix_slice_last)
  moreover have "0 < max_turns ms \<longrightarrow> int (length (history s')) \<le> 2 * max_turns ms"
  proof
    assume "0 < max_turns ms"
    then have "0 < max_turns ms * 2" by simp
    from length_slice_last [OF this, of ?old] show "int (length (history s')) \<le> 2 * max_turns ms"
      unfolding h by linarith
  qed
  moreover have "sessions (put_session (snd (get_session ms sid n0)) sid s') sid = Some s'"
    by (simp add: put_session_def)
  ultimately show ?thesis using r by blast
qed

text \<open>
  Claim C3: the stored history never exceeds \<^verbatim>\<open>2 * max_turns\<close> entries. For a service
  built with \<^verbatim>\<open>max_turns = 0\<close> the slice is \<^verbatim>\<open>history[-0:]\<close>, the whole list:
  after one call the history of a new session has 2 entries, more than the bound 0.
\<close>

theorem window_not_trimmed_at_zero:
  "map_option (length \<circ> history)
     (returned_session (add_turn (MemoryService 0) ''default'' ''hi'' ''hello'' sample_nows))
   = Some 2"
proof -
  obtain s' where
    r: "add_turn (MemoryService 0) ''default'' ''hi'' ''hello'' sample_nows
          = Inr (s', put_session (snd (get_session (MemoryService 0) ''default''
                   ''2025-01-01T10:00:00'')) ''default'' s')"
    and h: "history s' = slice_last (max_turns (MemoryService 0) * 2)
              (history (fst (get_session (MemoryService 0) ''default'' ''2025-01-01T10:00:00''))
               @ [user_turn ''hi'' ''2025-01-01T10:00:01'',
                  assistant_turn ''hello'' ''2025-01-01T10:00:02''])"
    using add_turn_returns [of "MemoryService 0" "''default''" "''hi''" "''hello''"
        "''2025-01-01T10:00:00''" "''2025-01-01T10:00:01''" "''2025-01-01T10:00:02''"]
    unfolding sample_nows_def by blast
  have "length (history s') = 2"
    by (simp add: h MemoryService_def slice_last_def get_session_def new_session_def)
  then show ?thesis by (simp add: r returned_session_def)
qed

section \<open>Name extraction\<close>

lemma lily_candidates:
  "str_in phrase_my_name_is (lower ''Hi, my name is Lily'')"
  "name_candidates (lower ''Hi, my name is Lily'') = Inr [''lily'']"
  "first_name [''lily''] = Some ''Lily''"
  by code_simp+

lemma seven_candidates:
  "str_in phrase_i_am (lower ''i am 7'')"
  "name_candidates (lower ''i am 7'') = Inr [''7'']"
  "first_name [''7''] = None"
  by code_simp+

text \<open>
  Claim C9. For every memory service, session and assistant text, \<^verbatim>\<open>add_turn\<close> with
  the user text \<^verbatim>\<open>Hi, my name is Lily\<close> returns a session whose \<^verbatim>\<open>child_name\<close>
  is Lily, and with the user text \<^verbatim>\<open>i am 7\<close> it returns a session whose
  \<^verbatim>\<open>child_name\<close> is what it was before the call (none for a new session).
\<close>

theorem name_extraction_examples:
  "map_option (child_name \<circ> derived_state)
     (returned_session (add_turn ms sid ''Hi, my name is Lily'' a (n0, n1, n2)))
     = Some (Some ''Lily'')
   \<and> map_option (child_name \<circ> derived_state)
       (returned_session (add_turn ms sid ''i am 7'' a (n0, n1, n2)))
     = Some (child_name (derived_state (fst (get_session ms sid n0))))"
  by (simp add: add_turn_def update_derived_state_def Let_def returned_session_def
      lily_candidates seven_candidates split: prod.splits del: first_name.simps)

section \<open>Moderation\<close>

lemma safe_text_is_unchanged:
  "fst (moderate_content lib x) \<Longrightarrow> fst (snd (moderate_content lib x)) = x"
  by (auto simp: moderate_content_def Let_def split: if_splits)

text \<open>
  Claim C5. For every text and whatever the profanity filter and the pattern engine answer,
  \<^verbatim>\<open>is_safe\<close> is true exactly when the returned violations are empty; and when a text
  is safe, moderating the returned cleaned text again reports it safe.
\<close>

theorem moderate_safe_iff_and_idempotent:
  "(fst (moderate_content lib x) \<longleftrightarrow> snd (snd (moderate_content lib x)) = [])
   \<and> (fst (moderate_content lib x)
        \<longrightarrow> fst (moderate_content lib (fst (snd (moderate_content lib x)))))"
proof
  show "fst (moderate_content lib x) \<longleftrightarrow> snd (snd (moderate_content lib x)) = []"
    by (simp add: moderate_content_def Let_def)
  show "fst (moderate_content lib x)
        \<longrightarrow> fst (moderate_content lib (fst (snd (moderate_content lib x))))"
    by (simp add: safe_text_is_unchanged)
qed

lemma sample_text_is_safe: "fst (moderate_content sample_libraries ''the letter b'')"
  by code_simp

theorem moderate_safe_iff_and_idempotent_witness:
  "fst (moderate_content sample_libraries ''the letter b'')
   \<and> snd (snd (moderate_content sample_libraries ''the letter b'')) = []
   \<and> fst (moderate_content sample_libraries
            (fst (snd (moderate_content sample_libraries ''the letter b''))))"
  using moderate_safe_iff_and_idempotent [of sample_libraries "''the letter b''"]
    sample_text_is_safe by blast

text \<open>An unsafe text, for comparison: the address is removed and both violations are
  reported.\<close>

lemma unsafe_example:
  "moderate_content sample_libraries ''my secret is bob@example.com''
   = (False, ''[REMOVED]'', [''pii_detected'', ''unsafe_topic_secret''])"
  by code_simp

section \<open>Pronunciation scoring\<close>

text \<open>The floats that occur for the letter table: 0, 0.5 and 1 are doubles and are fixed
  by the two-decimal rounding, and 1 + 0.2 is not below 1.\<close>

lemma fl_fixed: "fl 0 = 0" "fl (1 / 2) = 1 / 2" "fl 1 = 1"
  by code_simp+

lemma round2_fixed: "round2 0 = 0" "round2 (1 / 2) = 1 / 2" "round2 1 = 1"
  by code_simp+

lemma round2_fl_values:
  "round2 (fl 0) = 0" "round2 (fl (1 / 2)) = 1 / 2" "round2 (fl 1) = 1"
  by code_simp+

lemma round2_fl_fixed: "x \<in> {0, 1 / 2, 1} \<Longrightarrow> round2 (fl x) = x"
  using round2_fl_values by blast

lemma cap_applies: "1 \<le> fl (1 + float_0_2)"
  by code_simp

text \<open>Outside the table the rounding shows: one match of eight expected entries, the sets
  being equal, is 0.125 + 0.2 and rounds to the double nearest 0.33.\<close>

lemma calculate_accuracy_rounds:
  "calculate_accuracy [''x''] (replicate 8 ''x'') = fl (33 / 100)"
  by code_simp

lemma letter_phonemes_shape:
  "list_all (\<lambda>(letter, phs). distinct phs \<and> (length phs = 1 \<or> length phs = 2)) letter_phonemes"
  by code_simp

lemma letters_have_phonemes:
  "list_all (\<lambda>letter. map_of letter_phonemes letter \<noteq> None) uppercase_letters"
  by code_simp

lemma expected_shape:
  assumes "map_of letter_phonemes letter = Some expected"
  shows "distinct expected" and "length expected = 1 \<or> length expected = 2"
proof -
  from assms have "(letter, expected) \<in> set letter_phonemes" by (rule map_of_SomeD)
  with letter_phonemes_shape
  have "distinct expected \<and> (length expected = 1 \<or> length expected = 2)"
    by (auto simp: list_all_iff)
  then show "distinct expected" and "length expected = 1 \<or> length expected = 2" by simp_all
qed

lemma calculate_accuracy_spec:
  assumes d: "distinct expected" and n: "length expected = 1 \<or> length expected = 2"
  shows "calculate_accuracy detected expected = spec_accuracy (set detected) (set expected)"
proof -
  let ?m = "card (set detected \<inter> set expected)"
  have cn: "card (set expected) = length expected" using d by (rule distinct_card)
  have ne: "expected \<noteq> []" using n by auto
  have le: "?m \<le> length expected"
    using card_mono [of "set expected" "set detected \<inter> set expected"] cn by simp
  show ?thesis
  proof (cases "detected = []")
    case True
    then show ?thesis by (simp add: calculate_accuracy_def spec_accuracy_def ne)
  next
    case False
    show ?thesis
    proof (cases "set detected = set expected")
      case True
      then have "?m = length expected" using cn by simp
      then have q: "(of_nat ?m :: rat) / of_nat (length expected) = 1" using ne by simp
      have q': "(of_nat (card (set expected)) :: rat) / of_nat (length expected) = 1"
        using cn ne by simp
      have c: "min 1 (fl (1 + float_0_2)) = 1" using cap_applies by (simp add: min_def)
      have "calculate_accuracy detected expected = 1"
        using True False ne
        by (simp add: calculate_accuracy_def Let_def q' fl_fixed c round2_fixed)
      moreover have "spec_accuracy (set detected) (set expected) = 1"
        using True False ne q cn by (simp add: spec_accuracy_def)
      ultimately show ?thesis by simp
    next
      case neq: False
      have "(of_nat ?m :: rat) / of_nat (length expected) \<in> {0, 1 / 2, 1}"
        using n le by (cases "?m = 0"; cases "?m = 1"; cases "?m = 2") auto
      then have "round2 (fl (of_nat ?m / of_nat (length expected)))
                 = of_nat ?m / of_nat (length expected)"
        by (rule round2_fl_fixed)
      then show ?thesis
        using neq False ne cn
        by (simp add: calculate_accuracy_def spec_accuracy_def Let_def)
    qed
  qed
qed

lemma spec_accuracy_range: "0 \<le> spec_accuracy D E \<and> spec_accuracy D E \<le> 1"
proof (cases "finite E")
  case True
  then have "card (D \<inter> E) \<le> card E" by (simp add: card_mono)
  then have "(of_nat (card (D \<inter> E)) :: rat) / of_nat (card E) \<le> 1"
    by (cases "card E = 0") (simp_all add: divide_le_eq_1)
  then show ?thesis by (simp add: spec_accuracy_def)
next
  case False
  then show ?thesis by (simp add: spec_accuracy_def)
qed

lemma pattern_detections:
  "set (concat (map (\<lambda>(ph, patterns).
                       concat (map (\<lambda>pattern. if str_in pattern transcript then [ph] else [])
                                 patterns))
                  table))
   = set (map fst (filter (\<lambda>entry. list_ex (\<lambda>pattern. str_in pattern transcript) (snd entry))
                     table))"
  by (induction table) (auto simp: list_ex_iff split: if_splits)

lemma detect_phonemes_spec:
  assumes "map_of letter_phonemes letter = Some expected"
  shows "\<exists>detected. detect_phonemes transcript letter = Inr detected
           \<and> distinct detected \<and> set detected = spec_detected transcript letter"
  using assms pattern_detections [of transcript phoneme_patterns]
  by (simp add: detect_phonemes_def spec_detected_def Let_def get_or_def)

lemma lower_upper_char: "lower_char (upper_char c) = lower_char c"
  by (simp add: lower_char_def upper_char_def ord_def chr_def)

lemma lower_upper: "lower (upper s) = lower s"
  by (simp add: lower_def upper_def lower_upper_char)

lemma upper_upper_char: "upper_char (upper_char c) = upper_char c"
  by (simp add: upper_char_def ord_def chr_def)

text \<open>
  Claim C6. For every transcript and every target letter, the analysis of
  \<^verbatim>\<open>analyze_pronunciation\<close> is this. For a letter of the phoneme table (every letter
  from A to Z is one, in either case): the expected phonemes are the entry of the table,
  which is not empty; the detected phonemes are those of \<^verbatim>\<open>_detect_phonemes\<close> on the
  normalized transcript, as a set the detection rule of the specification; and the accuracy
  is the scoring rule of the specification on these two sets, that is the share of the
  expected phonemes that were detected, with 0.2 added and the sum capped at 1 when the two
  sets are equal, and 0 when nothing was detected. For any other target nothing is expected
  or detected and the accuracy is 0. In every case the accuracy lies between 0 and 1.
\<close>

theorem accuracy_matches_spec:
  "(let r = analyze_pronunciation transcript target phonics_mode;
        t = normalize_transcript transcript
    in (case map_of letter_phonemes (upper target) of
          None \<Rightarrow>
            expected_phonemes r = [] \<and> detected_phonemes r = [] \<and> accuracy_score r = 0
        | Some expected \<Rightarrow>
            expected_phonemes r = expected \<and> expected \<noteq> []
            \<and> detect_phonemes t (upper target) = Inr (detected_phonemes r)
            \<and> set (detected_phonemes r) = spec_detected t (upper target)
            \<and> accuracy_score r = spec_accuracy (spec_detected t (upper target)) (set expected))
       \<and> 0 \<le> accuracy_score r \<and> accuracy_score r \<le> 1)
   \<and> list_all (\<lambda>letter. map_of letter_phonemes letter \<noteq> None) uppercase_letters"
proof (cases "map_of letter_phonemes (upper target)")
  case None
  then show ?thesis
    using letters_have_phonemes
    by (simp add: analyze_pronunciation_def create_error_analysis_def Let_def)
next
  case (Some expected)
  obtain detected
    where det: "detect_phonemes (normalize_transcript transcript) (upper target) = Inr detected"
      and sp: "set detected = spec_detected (normalize_transcript transcript) (upper target)"
    using detect_phonemes_spec [OF Some] by blast
  have ne: "expected \<noteq> []" using expected_shape(2) [OF Some] by auto
  have acc: "calculate_accuracy detected expected = spec_accuracy (set detected) (set expected)"
    using expected_shape [OF Some] by (rule calculate_accuracy_spec)
  show ?thesis
    using spec_accuracy_range [of "set detected" "set expected"] letters_have_phonemes ne sp
    by (simp add: analyze_pronunciation_def Some det acc Let_def)
qed

text \<open>Some analyses: a letter name, a pattern of one of two expected phonemes, nothing
  detected, and a target outside the table.\<close>

lemma analyze_example:
  "detected_phonemes (analyze_pronunciation ''Bee!'' ''b'' True)
     = [''/bi'' @ ipa_long @ ''/'', ph_long_e, ph_short_e]
   \<and> accuracy_score (analyze_pronunciation ''Bee!'' ''b'' True) = 1
   \<and> accuracy_score (analyze_pronunciation ''My, my.'' ''i'' True) = 1 / 2
   \<and> accuracy_score (analyze_pronunciation ''hmm'' ''A'' True) = 0
   \<and> accuracy_score (analyze_pronunciation ''hay'' ''A'' True) = 1
   \<and> accuracy_score (analyze_pronunciation ''hay'' ''1'' True) = 0"
  by code_simp

section \<open>The current letter under the operations of the agent\<close>

lemma first_sound_in_member:
  "sound \<in> set sounds \<Longrightarrow> str_in sound user_lower \<Longrightarrow> first_sound_in sounds user_lower"
  by (induction sounds) auto

lemma str_in_single: "c \<in> set s \<Longrightarrow> str_in [c] s"
  by (induction s) auto

lemma lower_char_a: "lower_char CHR ''a'' = CHR ''a''"
  by code_simp

lemma letter_in_lower: "CHR ''a'' \<in> set s \<Longrightarrow> CHR ''a'' \<in> set (lower s)"
  using lower_char_a by (force simp: lower_def)

text \<open>The current letter through the operations of the memory service.\<close>

lemma letter_of_get_derived_state:
  "current_letter (fst (get_derived_state (memory ag) (session_id ag) now)) = letter_of ag"
  by (simp add: letter_of_def get_derived_state_def get_session_def new_session_def
      split: option.splits)

lemma letter_of_after_get_derived_state:
  "letter_of (ag\<lparr> memory := snd (get_derived_state (memory ag) (session_id ag) now) \<rparr>)
     = letter_of ag"
  by (simp add: letter_of_def get_derived_state_def get_session_def new_session_def
      split: option.splits)

lemma letter_of_after_history:
  "letter_of (ag\<lparr> memory := snd (get_conversation_history (memory ag) (session_id ag) limit now) \<rparr>)
     = letter_of ag"
  by (simp add: letter_of_def get_derived_state_def get_conversation_history_def get_session_def
      new_session_def split: option.splits)

lemma letter_of_after_progress:
  "letter_of (ag\<lparr> memory := snd (progress_letter mem (session_id ag) from_letter to_letter now) \<rparr>)
     = to_letter"
  by (simp add: letter_of_def get_derived_state_def progress_letter_def get_session_def
      put_session_def new_session_def split: option.splits prod.splits)

lemma letter_of_after_add_turn:
  assumes "add_turn (memory ag) (session_id ag) u a nows = Inr (s, mem1)"
  shows "letter_of (ag\<lparr> memory := mem1 \<rparr>) = letter_of ag"
proof -
  obtain n0 n1 n2 where nows: "nows = (n0, n1, n2)" by (cases nows) auto
  obtain s' where
    r: "add_turn (memory ag) (session_id ag) u a (n0, n1, n2)
          = Inr (s', put_session (snd (get_session (memory ag) (session_id ag) n0))
                       (session_id ag) s')"
    and l: "current_letter (derived_state s')
              = current_letter (derived_state (fst (get_session (memory ag) (session_id ag) n0)))"
    using add_turn_returns [of "memory ag" "session_id ag" u a n0 n1 n2] by blast
  from assms r nows have m: "mem1 = put_session (snd (get_session (memory ag) (session_id ag) n0))
                       (session_id ag) s'" by auto
  show ?thesis
    using l by (simp add: m letter_of_def get_derived_state_def get_session_def put_session_def
        new_session_def split: option.splits)
qed

lemma next_letter_of_uppercase:
  "\<forall>l \<in> set uppercase_letters.
     (case get_next_letter l of
        Inl e \<Rightarrow> False
      | Inr None \<Rightarrow> l = ''Z''
      | Inr (Some n) \<Rightarrow> n \<noteq> [] \<and> n \<in> set uppercase_letters \<and> next_in_alphabet l n
                         \<and> letter_position n = letter_position l + 1)"
  by code_simp


lemma generate_response_step:
  assumes up: "letter_of ag \<in> set uppercase_letters"
  shows "\<exists>response md ag'. generate_response ag u now = Inr (response, md, ag')
           \<and> session_id ag' = session_id ag \<and> curriculum ag' = curriculum ag
           \<and> letter_of ag' \<in> set uppercase_letters
           \<and> holds_or_advances (letter_of ag) (letter_of ag')
           \<and> letter_position (letter_of ag) \<le> letter_position (letter_of ag')"
proof -
  obtain state mem1 where g: "get_derived_state (memory ag) (session_id ag) now = (state, mem1)"
    by (cases "get_derived_state (memory ag) (session_id ag) now")
  have cur: "current_letter state = letter_of ag"
    using letter_of_get_derived_state [of ag now] g by simp
  have same: "letter_of (ag\<lparr> memory := mem1 \<rparr>) = letter_of ag"
    using letter_of_after_get_derived_state [of ag now] g by simp
  have nl: "case get_next_letter (letter_of ag) of
              Inl e \<Rightarrow> False
            | Inr None \<Rightarrow> letter_of ag = ''Z''
            | Inr (Some n) \<Rightarrow> n \<noteq> [] \<and> n \<in> set uppercase_letters
                               \<and> next_in_alphabet (letter_of ag) n
                               \<and> letter_position n = letter_position (letter_of ag) + 1"
    using up next_letter_of_uppercase by blast
  show ?thesis
  proof (cases "fst (check_pronunciation (curriculum ag) u (letter_of ag))")
    case False
    then show ?thesis
      using up same by (simp add: generate_response_def g cur Let_def holds_or_advances_def)
  next
    case True
    show ?thesis
    proof (cases "get_next_letter (letter_of ag)")
      case (Inl e)
      with nl show ?thesis by simp
    next
      case (Inr r)
      show ?thesis
      proof (cases r)
        case None
        then show ?thesis
          using True Inr up same
          by (simp add: generate_response_def g cur Let_def holds_or_advances_def)
      next
        case (Some n)
        with nl Inr have n: "n \<noteq> []" "n \<in> set uppercase_letters"
          "next_in_alphabet (letter_of ag) n"
          "letter_position n = letter_position (letter_of ag) + 1" by simp_all
        obtain ok mem2 where p: "progress_letter mem1 (session_id ag) (letter_of ag) n now = (ok, mem2)"
          by (cases "progress_letter mem1 (session_id ag) (letter_of ag) n now")
        have "letter_of (ag\<lparr> memory := mem2 \<rparr>) = n"
          using letter_of_after_progress [where ag = ag and mem = mem1 and from_letter = "letter_of ag"
              and to_letter = n and now = now] p by simp
        then show ?thesis
          using True Inr Some n p
          by (simp add: generate_response_def g cur Let_def holds_or_advances_def)
      qed
    qed
  qed
qed

lemma handle_special_commands_step:
  assumes up: "letter_of ag \<in> set uppercase_letters"
  shows "\<exists>result ag'. handle_special_commands ag u now = Inr (result, ag')
           \<and> session_id ag' = session_id ag \<and> curriculum ag' = curriculum ag
           \<and> letter_of ag' \<in> set uppercase_letters
           \<and> holds_or_advances (letter_of ag) (letter_of ag')
           \<and> letter_position (letter_of ag) \<le> letter_position (letter_of ag')"
proof -
  obtain state mem1 where g: "get_derived_state (memory ag) (session_id ag) now = (state, mem1)"
    by (cases "get_derived_state (memory ag) (session_id ag) now")
  have cur: "current_letter state = letter_of ag"
    using letter_of_get_derived_state [of ag now] g by simp
  have same: "letter_of (ag\<lparr> memory := mem1 \<rparr>) = letter_of ag"
    using letter_of_after_get_derived_state [of ag now] g by simp
  obtain hist mem3 where
    h: "get_conversation_history (memory ag) (session_id ag) (Some 2) now = (hist, mem3)"
    by (cases "get_conversation_history (memory ag) (session_id ag) (Some 2) now")
  have same3: "letter_of (ag\<lparr> memory := mem3 \<rparr>) = letter_of ag"
    using letter_of_after_history [of ag "Some 2" now] h by simp
  have nl: "case get_next_letter (letter_of ag) of
              Inl e \<Rightarrow> False
            | Inr None \<Rightarrow> letter_of ag = ''Z''
            | Inr (Some n) \<Rightarrow> n \<noteq> [] \<and> n \<in> set uppercase_letters
                               \<and> next_in_alphabet (letter_of ag) n
                               \<and> letter_position n = letter_position (letter_of ag) + 1"
    using up next_letter_of_uppercase by blast
  let ?ul = "strip (lower u)"
  consider (c_help) "?ul \<in> set [''help'', ''what do i do'', ''i don'' @ [CHR 0x27] @ ''t know'']"
    | (c_repeat) "?ul \<notin> set [''help'', ''what do i do'', ''i don'' @ [CHR 0x27] @ ''t know'']"
        "?ul \<in> set [''repeat'', ''say that again'', ''what'']"
    | (c_skip) "?ul \<notin> set [''help'', ''what do i do'', ''i don'' @ [CHR 0x27] @ ''t know'']"
        "?ul \<notin> set [''repeat'', ''say that again'', ''what'']"
        "str_in ''next letter'' ?ul \<or> str_in ''skip'' ?ul"
    | (c_none) "?ul \<notin> set [''help'', ''what do i do'', ''i don'' @ [CHR 0x27] @ ''t know'']"
        "?ul \<notin> set [''repeat'', ''say that again'', ''what'']"
        "\<not> (str_in ''next letter'' ?ul \<or> str_in ''skip'' ?ul)"
    by blast
  then show ?thesis
  proof cases
    case c_help
    then have "handle_special_commands ag u now =
        (case get_lesson (curriculum ag) (letter_of ag) of
                    None \<Rightarrow> Inr (None, ag\<lparr> memory := mem1 \<rparr>)
                  | Some lesson \<Rightarrow>
                      if lesson \<noteq> empty_lesson
                      then Inr (Some (get_or (prompt lesson)
                                        (''Let'' @ [CHR 0x27] @ ''s practice the letter ''
                                         @ letter_of ag @ ''!''),
                                      \<lparr> command_type = ''help'', command_new_letter = None \<rparr>),
                                ag\<lparr> memory := mem1 \<rparr>)
                      else Inr (None, ag\<lparr> memory := mem1 \<rparr>))"
      by (simp add: handle_special_commands_def Let_def g cur
          cong: sum.case_cong option.case_cong if_cong)
    then show ?thesis
      using up same by (auto simp: holds_or_advances_def split: option.splits)
  next
    case c_repeat
    then have "handle_special_commands ag u now =
        (if hist \<noteq> [] \<and> turn_type (last hist) = ''assistant''
                   then Inr (Some (turn_text (last hist),
                                   \<lparr> command_type = ''repeat'', command_new_letter = None \<rparr>),
                             ag\<lparr> memory := mem3 \<rparr>)
                   else Inr (None, ag\<lparr> memory := mem3 \<rparr>))"
      by (simp add: handle_special_commands_def Let_def h)
    then show ?thesis
      using up same3 by (auto simp: holds_or_advances_def)
  next
    case c_skip
    then have eq: "handle_special_commands ag u now =
         (case get_next_letter (letter_of ag) of
                    Inl e \<Rightarrow> Inl e
                  | Inr None \<Rightarrow> Inr (None, ag\<lparr> memory := mem1 \<rparr>)
                  | Inr (Some next_letter) \<Rightarrow>
                      if next_letter \<noteq> []
                      then (case progress_letter mem1 (session_id ag) (letter_of ag)
                                   next_letter now of
                              (ok, mem2) \<Rightarrow>
                                Inr (Some (skip_text (curriculum ag) next_letter,
                                           \<lparr> command_type = ''skip'',
                                             command_new_letter = Some next_letter \<rparr>),
                                     ag\<lparr> memory := mem2 \<rparr>))
                      else Inr (None, ag\<lparr> memory := mem1 \<rparr>))"
      by (simp add: handle_special_commands_def Let_def g cur
          cong: sum.case_cong option.case_cong if_cong)
    show ?thesis
    proof (cases "get_next_letter (letter_of ag)")
      case (Inl e)
      with nl show ?thesis by simp
    next
      case (Inr r)
      show ?thesis
      proof (cases r)
        case None
        then show ?thesis
          using Inr up same by (simp add: eq holds_or_advances_def)
      next
        case (Some n)
        with nl Inr have n: "n \<noteq> []" "n \<in> set uppercase_letters"
          "next_in_alphabet (letter_of ag) n"
          "letter_position n = letter_position (letter_of ag) + 1" by simp_all
        obtain ok mem2 where p: "progress_letter mem1 (session_id ag) (letter_of ag) n now = (ok, mem2)"
          by (cases "progress_letter mem1 (session_id ag) (letter_of ag) n now")
        have "letter_of (ag\<lparr> memory := mem2 \<rparr>) = n"
          using letter_of_after_progress [where ag = ag and mem = mem1 and from_letter = "letter_of ag"
              and to_letter = n and now = now] p by simp
        then show ?thesis
          using Inr Some n p by (simp add: eq holds_or_advances_def)
      qed
    qed
  next
    case c_none
    then have "handle_special_commands ag u now = Inr (None, ag)"
      by (simp add: handle_special_commands_def Let_def)
    then show ?thesis using up by (simp add: holds_or_advances_def)
  qed
qed

lemma update_memory_step:
  assumes up: "letter_of ag \<in> set uppercase_letters"
  shows "\<exists>ag'. update_memory ag u a nows = Inr ag'
           \<and> session_id ag' = session_id ag \<and> curriculum ag' = curriculum ag
           \<and> letter_of ag' \<in> set uppercase_letters
           \<and> holds_or_advances (letter_of ag) (letter_of ag')
           \<and> letter_position (letter_of ag) \<le> letter_position (letter_of ag')"
proof (cases "u \<noteq> [] \<or> a \<noteq> []")
  case False
  then show ?thesis using up by (simp add: update_memory_def holds_or_advances_def)
next
  case True
  obtain n0 n1 n2 where nows: "nows = (n0, n1, n2)" by (cases nows) auto
  obtain s mem1 where r: "add_turn (memory ag) (session_id ag) u a nows = Inr (s, mem1)"
    using add_turn_returns [of "memory ag" "session_id ag" u a n0 n1 n2] nows by blast
  have "letter_of (ag\<lparr> memory := mem1 \<rparr>) = letter_of ag"
    using r by (rule letter_of_after_add_turn)
  then show ?thesis
    using True up r by (simp add: update_memory_def holds_or_advances_def)
qed

lemma perform_step:
  assumes up: "letter_of ag \<in> set uppercase_letters"
  shows "\<exists>ag'. perform ag op = Inr ag'
           \<and> letter_of ag' \<in> set uppercase_letters
           \<and> holds_or_advances (letter_of ag) (letter_of ag')
           \<and> letter_position (letter_of ag) \<le> letter_position (letter_of ag')"
proof (cases op)
  case (GenerateResponse u now)
  then show ?thesis
    using generate_response_step [OF up, of u now] by (auto simp: perform_def)
next
  case (HandleSpecialCommands u now)
  then show ?thesis
    using handle_special_commands_step [OF up, of u now] by (auto simp: perform_def)
next
  case (UpdateMemory u a nows)
  then show ?thesis
    using update_memory_step [OF up, of u a nows] by (auto simp: perform_def)
qed

section \<open>Completion, progression and the order of the letters\<close>

lemma session_exists_unless_A:
  "letter_of ag \<noteq> ''A'' \<Longrightarrow>
   get_derived_state (memory ag) (session_id ag) now
     = (fst (get_derived_state (memory ag) (session_id ag) now), memory ag)"
  by (auto simp: letter_of_def get_derived_state_def get_session_def new_session_def
      split: option.splits)

text \<open>
  Claim C7. For every agent whose session has the current letter Z and every input that
  \<^verbatim>\<open>check_pronunciation\<close> judges correct for Z, \<^verbatim>\<open>generate_response\<close> returns
  metadata with \<^verbatim>\<open>curriculum_complete\<close> true, without \<^verbatim>\<open>progress_made\<close> or
  \<^verbatim>\<open>new_letter\<close>, and leaves the agent and its memory as they were: the current letter
  is still Z.
\<close>

theorem completion_at_Z:
  assumes z: "letter_of ag = ''Z''"
    and ok: "fst (check_pronunciation (curriculum ag) user_input ''Z'')"
  shows "\<exists>response md ag'. generate_response ag user_input now = Inr (response, md, ag')
           \<and> curriculum_complete md = Some True
           \<and> progress_made md = False \<and> new_letter md = None
           \<and> ag' = ag \<and> letter_of ag' = ''Z''"
proof -
  obtain state where g: "get_derived_state (memory ag) (session_id ag) now = (state, memory ag)"
    using session_exists_unless_A [of ag now] z by simp
  have cur: "current_letter state = ''Z''"
    using letter_of_get_derived_state [of ag now] g z by simp
  have nl: "get_next_letter ''Z'' = Inr None" by code_simp
  show ?thesis
    using ok z by (simp add: generate_response_def g cur nl Let_def)
qed

lemma sample_at_Z: "letter_of sample_agent_at_Z = ''Z''"
  by (simp add: letter_of_def sample_agent_at_Z_def sample_agent_def put_session_def
      get_derived_state_def get_session_def sample_session_at_Z_def)

lemma zebra_is_correct:
  "fst (check_pronunciation (curriculum sample_agent_at_Z) ''zebra'' ''Z'')"
  by code_simp

theorem completion_at_Z_witness:
  "letter_of sample_agent_at_Z = ''Z''
   \<and> fst (check_pronunciation (curriculum sample_agent_at_Z) ''zebra'' ''Z'')
   \<and> (\<exists>response md. generate_response sample_agent_at_Z ''zebra'' ''2025-01-01T11:00:00''
                         = Inr (response, md, sample_agent_at_Z)
          \<and> curriculum_complete md = Some True)"
  using completion_at_Z [OF sample_at_Z zebra_is_correct, of "''2025-01-01T11:00:00''"]
    sample_at_Z zebra_is_correct by auto

text \<open>A run on a new session: a correct answer for A, a memory write, a wrong answer for
  B and a skip.\<close>

lemma run_example:
  "map_sum id (map letter_of) (run sample_agent sample_operations)
     = Inr [''A'', ''B'', ''B'', ''B'', ''C'']"
  by code_simp


lemma run_forward:
  assumes "letter_of ag \<in> set uppercase_letters"
  shows "\<exists>states. run ag ops = Inr (ag # states)
           \<and> length states = length ops
           \<and> list_all (\<lambda>a. letter_of a \<in> set uppercase_letters) (ag # states)
           \<and> moves_forward (map letter_of (ag # states))
           \<and> sorted (map (letter_position \<circ> letter_of) (ag # states))"
  using assms
proof (induction ops arbitrary: ag)
  case Nil
  then show ?case by simp
next
  case (Cons op ops)
  obtain ag1 where p: "perform ag op = Inr ag1"
    and up1: "letter_of ag1 \<in> set uppercase_letters"
    and step: "holds_or_advances (letter_of ag) (letter_of ag1)"
    and le: "letter_position (letter_of ag) \<le> letter_position (letter_of ag1)"
    using perform_step [OF Cons.prems, of op] by blast
  obtain states where r: "run ag1 ops = Inr (ag1 # states)"
    and len: "length states = length ops"
    and all: "list_all (\<lambda>a. letter_of a \<in> set uppercase_letters) (ag1 # states)"
    and fw: "moves_forward (map letter_of (ag1 # states))"
    and so: "sorted (map (letter_position \<circ> letter_of) (ag1 # states))"
    using Cons.IH [OF up1] by blast
  have r0: "run ag (op # ops) = Inr (ag # ag1 # states)" by (simp add: p r)
  have so0: "sorted (map (letter_position \<circ> letter_of) (ag # ag1 # states))"
    using so le by (auto simp: comp_def)
  have all0: "list_all (\<lambda>a. letter_of a \<in> set uppercase_letters) (ag # ag1 # states)"
    using all Cons.prems by simp
  have fw0: "moves_forward (map letter_of (ag # ag1 # states))"
    using fw step by simp
  have len0: "length (ag1 # states) = length (op # ops)" using len by simp
  show ?case
    using r0 len0 all0 fw0 so0 by blast
qed

text \<open>
  Claim C8. From every state in which the current letter of the agent's session is one of
  A to Z (a new session is at A), every sequence of operations (turns of
  \<^verbatim>\<open>generate_response\<close>, special commands, memory writes) runs without an exception,
  and along the states it passes through the current letter stays one of A to Z, each
  operation holds it or replaces it by its successor, and its position in the alphabet never
  decreases.
\<close>

theorem letter_never_moves_backward:
  assumes "letter_of ag \<in> set uppercase_letters"
  shows "\<exists>states. run ag ops = Inr states
           \<and> length states = Suc (length ops)
           \<and> list_all (\<lambda>a. letter_of a \<in> set uppercase_letters) states
           \<and> moves_forward (map letter_of states)
           \<and> sorted (map (letter_position \<circ> letter_of) states)"
proof -
  obtain states where "run ag ops = Inr (ag # states)" "length states = length ops"
    "list_all (\<lambda>a. letter_of a \<in> set uppercase_letters) (ag # states)"
    "moves_forward (map letter_of (ag # states))"
    "sorted (map (letter_position \<circ> letter_of) (ag # states))"
    using run_forward [OF assms, of ops] by blast
  then show ?thesis by (intro exI [of _ "ag # states"]) simp
qed

lemma sample_agent_at_A: "letter_of sample_agent \<in> set uppercase_letters"
  by code_simp

theorem letter_never_moves_backward_witness:
  "letter_of sample_agent \<in> set uppercase_letters
   \<and> (\<exists>states. run sample_agent sample_operations = Inr states
         \<and> length states = 5
         \<and> moves_forward (map letter_of states)
         \<and> sorted (map (letter_position \<circ> letter_of) states))"
  using letter_never_moves_backward [OF sample_agent_at_A, of sample_operations] sample_agent_at_A
  by (auto simp: sample_operations_def)

lemma letter_sound_in_map:
  assumes inv: "phoneme_map cs = build_phoneme_map (lessons cs)"
    and has: "get_lesson cs target \<noteq> None"
  shows "\<exists>sounds. phoneme_map cs (upper target) = Some sounds \<and> lower target \<in> set sounds"
  using has by (auto simp: inv build_phoneme_map_def get_lesson_def lower_upper)

lemma check_pronunciation_letter:
  assumes inv: "phoneme_map cs = build_phoneme_map (lessons cs)"
    and has: "get_lesson cs target \<noteq> None"
    and sub: "str_in (lower target) (lower user_input)"
  shows "fst (check_pronunciation cs user_input target)"
proof -
  obtain sounds where s: "phoneme_map cs (upper target) = Some sounds"
    and m: "lower target \<in> set sounds"
    using letter_sound_in_map [OF inv has] by blast
  have "first_sound_in sounds (lower user_input)"
    using m sub by (rule first_sound_in_member)
  then show ?thesis by (simp add: check_pronunciation_def Let_def s get_or_def)
qed

lemma advance_from_A:
  assumes inv: "phoneme_map (curriculum ag) = build_phoneme_map (lessons (curriculum ag))"
    and a: "letter_of ag = ''A''"
    and has: "get_lesson (curriculum ag) ''A'' \<noteq> None"
    and inp: "CHR ''a'' \<in> set user_input"
  shows "\<exists>response md ag'. generate_response ag user_input now = Inr (response, md, ag')
            \<and> is_correct md \<and> progress_made md \<and> new_letter md = Some ''B''
            \<and> letter_of ag' = ''B''"
proof -
  obtain state mem1 where g: "get_derived_state (memory ag) (session_id ag) now = (state, mem1)"
    by (cases "get_derived_state (memory ag) (session_id ag) now")
  have cur: "current_letter state = ''A''"
    using letter_of_get_derived_state [of ag now] g a by simp
  have la: "lower ''A'' = ''a''" by code_simp
  have "str_in ''a'' (lower user_input)"
    using letter_in_lower [OF inp] by (rule str_in_single)
  then have ok: "fst (check_pronunciation (curriculum ag) user_input ''A'')"
    using check_pronunciation_letter [OF inv has, of user_input] by (simp add: la)
  have nl: "get_next_letter ''A'' = Inr (Some ''B'')" by code_simp
  obtain okp mem2 where p: "progress_letter mem1 (session_id ag) ''A'' ''B'' now = (okp, mem2)"
    by (cases "progress_letter mem1 (session_id ag) ''A'' ''B'' now")
  have "letter_of (ag\<lparr> memory := mem2 \<rparr>) = ''B''"
    using letter_of_after_progress [where ag = ag and mem = mem1 and from_letter = "''A''"
        and to_letter = "''B''" and now = now] p by simp
  then show ?thesis
    using ok by (simp add: generate_response_def g cur nl p Let_def)
qed

text \<open>
  Claim C10. For a curriculum service whose phoneme map is the one built from its lesson
  table: for every target letter with a lesson, \<^verbatim>\<open>check_pronunciation\<close> judges an input
  correct whenever the lowercased target letter is a substring of the lowercased input; and
  when the current letter is A and A has a lesson, every input containing the character a
  is marked correct by \<^verbatim>\<open>generate_response\<close>, which moves the current letter to B.
\<close>

theorem letter_in_input_is_correct:
  assumes inv: "phoneme_map (curriculum ag) = build_phoneme_map (lessons (curriculum ag))"
  shows "(get_lesson (curriculum ag) target \<noteq> None
            \<and> str_in (lower target) (lower user_input)
          \<longrightarrow> fst (check_pronunciation (curriculum ag) user_input target))
       \<and> (letter_of ag = ''A'' \<and> get_lesson (curriculum ag) ''A'' \<noteq> None
            \<and> CHR ''a'' \<in> set user_input
          \<longrightarrow> (\<exists>response md ag'.
                 generate_response ag user_input now = Inr (response, md, ag')
                 \<and> is_correct md \<and> progress_made md \<and> new_letter md = Some ''B''
                 \<and> letter_of ag' = ''B''))"
  using check_pronunciation_letter [OF inv] advance_from_A [OF inv] by blast

lemma sample_facts:
  "phoneme_map (curriculum sample_agent) = build_phoneme_map (lessons (curriculum sample_agent))"
  "get_lesson (curriculum sample_agent) ''A'' \<noteq> None"
  "str_in (lower ''A'') (lower ''Banana'')"
  "letter_of sample_agent = ''A''"
  "CHR ''a'' \<in> set ''Banana''"
  by (simp add: sample_agent_def sample_curriculum_def, code_simp+)

theorem letter_in_input_is_correct_witness:
  "phoneme_map (curriculum sample_agent) = build_phoneme_map (lessons (curriculum sample_agent))
   \<and> get_lesson (curriculum sample_agent) ''A'' \<noteq> None
   \<and> str_in (lower ''A'') (lower ''Banana'')
   \<and> letter_of sample_agent = ''A''
   \<and> CHR ''a'' \<in> set ''Banana''
   \<and> fst (check_pronunciation (curriculum sample_agent) ''Banana'' ''A'')
   \<and> (\<exists>response md ag'.
         generate_response sample_agent ''Banana'' ''2025-01-01T10:00:00''
           = Inr (response, md, ag')
         \<and> is_correct md \<and> progress_made md \<and> new_letter md = Some ''B''
         \<and> letter_of ag' = ''B'')"
  using letter_in_input_is_correct [OF sample_facts(1), of "''A''" "''Banana''"
      "''2025-01-01T10:00:00''"] sample_facts
  by blast

end
